theory Spec2Isabelle
  imports Main
begin

section \<open>Session traces as parsed JSON\<close>

text \<open>
  \<^verbatim>\<open>generate_mermaid_diagram\<close> receives what \<^verbatim>\<open>json.load\<close> returned: a Python value built
  from \<^verbatim>\<open>None\<close>, booleans, integers, strings, lists and dicts. A dict keeps its
  insertion order, so it is an association list; \<^verbatim>\<open>json.load\<close> never produces a key
  twice. A \<open>char\<close> stands for one character of a Python \<^verbatim>\<open>str\<close>, so \<open>length\<close> is
  Python's \<^verbatim>\<open>len\<close> on text over the first 256 code points. JSON numbers with a
  fraction (Python floats) are left out of the value type.
\<close>

datatype json =
    JNull
  | JBool bool
  | JInt int
  | JStr string
  | JList "json list"
  | JDict "(string \<times> json) list"

datatype py_error = AttributeError | TypeError

text \<open>\<^verbatim>\<open>d.get(key, default)\<close>\<close>

definition dict_get :: "(string \<times> json) list \<Rightarrow> string \<Rightarrow> json \<Rightarrow> json" where
  "dict_get d k dflt = (case map_of d k of None \<Rightarrow> dflt | Some v \<Rightarrow> v)"

text \<open>Python's truth value of an object, as \<^verbatim>\<open>if success:\<close> and \<^verbatim>\<open>error or 'Error'\<close> take it.\<close>

fun truthy :: "json \<Rightarrow> bool" where
  "truthy JNull = False"
| "truthy (JBool b) = b"
| "truthy (JInt i) = (i \<noteq> 0)"
| "truthy (JStr s) = (s \<noteq> [])"
| "truthy (JList xs) = (xs \<noteq> [])"
| "truthy (JDict d) = (d \<noteq> [])"

subsection \<open>Characters and text primitives\<close>

definition newline :: char where "newline = CHR 0x0A"
definition dquote :: char where "dquote = CHR 0x22"
definition squote :: char where "squote = CHR 0x27"
definition backslash :: char where "backslash = CHR 0x5C"

text \<open>\<^verbatim>\<open>sep.join(xs)\<close>\<close>

fun join :: "string \<Rightarrow> string list \<Rightarrow> string" where
  "join sep [] = []"
| "join sep [x] = x"
| "join sep (x # y # ys) = x @ sep @ join sep (y # ys)"

text \<open>\<^verbatim>\<open>xs[:n]\<close> for an integer \<open>n\<close>: a negative bound counts from the end.\<close>

definition slice_to :: "int \<Rightarrow> 'a list \<Rightarrow> 'a list" where
  "slice_to n xs = (if 0 \<le> n then take (nat n) xs else take (length xs - nat (- n)) xs)"

text \<open>\<^verbatim>\<open>str(n)\<close> for an integer.\<close>

definition digit_char :: "nat \<Rightarrow> char" where
  "digit_char d = char_of (of_char (CHR ''0'') + d)"

function str_nat :: "nat \<Rightarrow> string" where
  "str_nat n = (if n < 10 then [digit_char n] else str_nat (n div 10) @ [digit_char (n mod 10)])"
  by pat_completeness auto
termination
  by (relation "measure id") auto

declare str_nat.simps [simp del]

definition str_int :: "int \<Rightarrow> string" where
  "str_int i = (if i < 0 then CHR ''-'' # str_nat (nat (- i)) else str_nat (nat i))"

text \<open>
  \<^verbatim>\<open>repr(s)\<close> for a string: single quotes unless the text has a single quote and no
  double quote; the quote and the backslash are escaped, tab, line feed and carriage
  return are written \<^verbatim>\<open>\t \n \r\<close>, every other unprintable character as \<^verbatim>\<open>\xhh\<close>.
\<close>

definition hex_digit :: "nat \<Rightarrow> char" where
  "hex_digit d = (if d < 10 then digit_char d else char_of (of_char (CHR ''a'') + (d - 10)))"

definition printable :: "char \<Rightarrow> bool" where
  "printable c = (let n = (of_char c :: nat) in
     if n < 0x20 \<or> n = 0x7F then False
     else if n < 0x7F then True
     else \<not> (n \<le> 0xA0 \<or> n = 0xAD))"

definition repr_char :: "char \<Rightarrow> char \<Rightarrow> string" where
  "repr_char q c =
     (if c = q \<or> c = backslash then [backslash, c]
      else if c = CHR 0x09 then [backslash, CHR ''t'']
      else if c = newline then [backslash, CHR ''n'']
      else if c = CHR 0x0D then [backslash, CHR ''r'']
      else if printable c then [c]
      else [backslash, CHR ''x'', hex_digit ((of_char c :: nat) div 16), hex_digit ((of_char c :: nat) mod 16)])"

definition repr_str :: "string \<Rightarrow> string" where
  "repr_str s =
     (let q = (if squote \<in> set s \<and> dquote \<notin> set s then dquote else squote)
      in [q] @ concat (map (repr_char q) s) @ [q])"

text \<open>\<^verbatim>\<open>repr(v)\<close> and \<^verbatim>\<open>str(v)\<close> (what an f-string writes) for a parsed JSON value.\<close>

fun py_repr :: "json \<Rightarrow> string" where
  "py_repr JNull = ''None''"
| "py_repr (JBool b) = (if b then ''True'' else ''False'')"
| "py_repr (JInt i) = str_int i"
| "py_repr (JStr s) = repr_str s"
| "py_repr (JList xs) = ''['' @ join '', '' (map py_repr xs) @ '']''"
| "py_repr (JDict d) =
     ''{'' @ join '', '' (map (\<lambda>p. repr_str (fst p) @ '': '' @ py_repr (snd p)) d) @ ''}''"

definition py_str :: "json \<Rightarrow> string" where
  "py_str v = (case v of JStr s \<Rightarrow> s | _ \<Rightarrow> py_repr v)"

section \<open>The diagram renderer (scripts/generate\_sequence\_diagram.py)\<close>

text \<open>
  \<^verbatim>\<open>escape_text(text, max_length=50)\<close>: line feeds become \<^verbatim>\<open><br/>\<close>, double quotes become
  single quotes, and a result longer than \<open>max_length\<close> is cut to \<open>max_length\<close>
  characters followed by three dots.
\<close>

definition replace_newlines :: "string \<Rightarrow> string" where
  "replace_newlines t = concat (map (\<lambda>c. if c = newline then ''<br/>'' else [c]) t)"

definition replace_dquotes :: "string \<Rightarrow> string" where
  "replace_dquotes t = map (\<lambda>c. if c = dquote then squote else c) t"

definition escape_text :: "string \<Rightarrow> int \<Rightarrow> string" where
  "escape_text text max_length =
     (let t = replace_dquotes (replace_newlines text)
      in if int (length t) > max_length then slice_to max_length t @ ''...'' else t)"

text \<open>
  The call \<^verbatim>\<open>escape_text(v, n)\<close> on a value read from an event: \<^verbatim>\<open>v.replace\<close> exists on
  a \<^verbatim>\<open>str\<close> only.
\<close>

definition escape_value :: "json \<Rightarrow> int \<Rightarrow> py_error + string" where
  "escape_value v max_length =
     (case v of JStr s \<Rightarrow> Inr (escape_text s max_length) | _ \<Rightarrow> Inl AttributeError)"

record render_state =
  lines :: "string list"
  turn_number :: int
  in_turn :: bool

definition header :: "(string \<times> json) list \<Rightarrow> string list" where
  "header trace_data =
     [''---'',
      ''Session ID: '' @ py_str (dict_get trace_data ''session_id'' (JStr ''unknown'')),
      ''Start Time: '' @ py_str (dict_get trace_data ''start_time'' (JStr ''unknown'')),
      ''Model: '' @ py_str (dict_get trace_data ''model'' (JStr ''unknown'')),
      ''---'',
      '''',
      ''```mermaid'',
      ''sequenceDiagram'',
      ''    participant User'',
      ''    participant HostApp as Host App<br/>(chat.py)'',
      ''    participant LLM as Claude LLM'',
      ''    participant MemorySystem as Memory System<br/>(memory_tool)'',
      '''',
      ''    Note over HostApp: Session Started'']"

text \<open>The parameter rendering of a \<^verbatim>\<open>tool_call\<close>: \<^verbatim>\<open>parameters.items()\<close> needs a dict.\<close>

definition params_str :: "json \<Rightarrow> py_error + string" where
  "params_str parameters =
     (case parameters of
        JDict d \<Rightarrow>
          (let s = join '', '' (map (\<lambda>(k, v). k @ ''='' @ slice_to 30 (py_repr v)) d)
           in Inr (if length s > 50 then slice_to 50 s @ ''...'' else s))
      | _ \<Rightarrow> Inl AttributeError)"

text \<open>One iteration of the loop over the events.\<close>

definition render_event :: "render_state \<Rightarrow> json \<Rightarrow> py_error + render_state" where
  "render_event st event =
     (case event of
        JDict ev \<Rightarrow>
          (let event_type = dict_get ev ''event_type'' JNull in
           if event_type = JStr ''user_input'' then
             (case escape_value (dict_get ev ''content'' (JStr '''')) 50 of
                Inl e \<Rightarrow> Inl e
              | Inr content \<Rightarrow>
                  Inr (st\<lparr>turn_number := turn_number st + 1,
                          lines := lines st @
                            ['''',
                             ''    rect rgb(200, 220, 255)'',
                             ''        Note over User,MemorySystem: Turn '' @
                               str_int (turn_number st + 1) @ '': User Input'',
                             '''',
                             ''        User->>HostApp: '' @ [dquote] @ content @ [dquote],
                             ''        HostApp->>HostApp: Append to messages''],
                          in_turn := True\<rparr>))
           else if event_type = JStr ''llm_request'' then
             (if in_turn st then
                Inr (st\<lparr>lines := lines st @
                            ['''',
                             ''        HostApp->>LLM: POST /messages<br/>tools: '' @
                               py_str (dict_get ev ''tools'' (JList []))]\<rparr>)
              else Inr st)
           else if event_type = JStr ''tool_call'' then
             (let tool_name = dict_get ev ''tool_name'' (JStr '''');
                  command = dict_get ev ''command'' (JStr '''');
                  parameters = dict_get ev ''parameters'' (JDict [])
              in if tool_name = JStr ''memory'' then
                   (case params_str parameters of
                      Inl e \<Rightarrow> Inl e
                    | Inr ps \<Rightarrow>
                        Inr (st\<lparr>lines := lines st @
                               ['''',
                                ''        Note over LLM: Decides to '' @ py_str command,
                                ''        LLM->>MemorySystem: '' @ py_str command @
                                  ''('' @ ps @ '')'',
                                ''        activate MemorySystem'']\<rparr>))
                 else Inr st)
           else if event_type = JStr ''tool_result'' then
             (let tool_name = dict_get ev ''tool_name'' (JStr '''');
                  success = dict_get ev ''success'' (JBool True);
                  error = dict_get ev ''error'' JNull;
                  result = dict_get ev ''result'' (JStr '''')
              in if tool_name = JStr ''memory'' then
                   (if truthy success then
                      (case escape_value result 40 of
                         Inl e \<Rightarrow> Inl e
                       | Inr result_preview \<Rightarrow>
                           Inr (st\<lparr>lines := lines st @
                                  [''        MemorySystem-->>LLM: '' @ result_preview,
                                   ''        deactivate MemorySystem'']\<rparr>))
                    else
                      (case escape_value (if truthy error then error else JStr ''Error'') 40 of
                         Inl e \<Rightarrow> Inl e
                       | Inr error_msg \<Rightarrow>
                           Inr (st\<lparr>lines := lines st @
                                  [''        MemorySystem-->>LLM: ERROR: '' @ error_msg,
                                   ''        deactivate MemorySystem'']\<rparr>)))
                 else Inr st)
           else if event_type = JStr ''llm_response'' then
             (case escape_value (dict_get ev ''content'' (JStr '''')) 60 of
                Inl e \<Rightarrow> Inl e
              | Inr content \<Rightarrow>
                  Inr (st\<lparr>lines := lines st @
                            ['''',
                             ''        Note over LLM: Ready to respond'',
                             ''        LLM-->>HostApp: '' @ [dquote] @ content @ [dquote],
                             ''        HostApp->>HostApp: Append to messages'',
                             ''        HostApp-->>User: '' @ [dquote] @ content @ [dquote]] @
                            (if in_turn st then [''    end''] else []),
                          in_turn := False\<rparr>))
           else if event_type = JStr ''error'' then
             (case escape_value (dict_get ev ''message'' (JStr ''Unknown error'')) 40 of
                Inl e \<Rightarrow> Inl e
              | Inr error_msg \<Rightarrow>
                  Inr (st\<lparr>lines := lines st @
                            [''    Note over HostApp: ERROR: '' @ error_msg]\<rparr>))
           else Inr st)
      | _ \<Rightarrow> Inl AttributeError)"

text \<open>The loop \<^verbatim>\<open>for i, event in enumerate(events)\<close>: the first exception ends it.\<close>

fun render_events :: "render_state \<Rightarrow> json list \<Rightarrow> py_error + render_state" where
  "render_events st [] = Inr st"
| "render_events st (event # events) =
     (case render_event st event of
        Inl e \<Rightarrow> Inl e
      | Inr st' \<Rightarrow> render_events st' events)"

text \<open>
  What \<^verbatim>\<open>enumerate(events)\<close> iterates: the items of a list, the characters of a string,
  the keys of a dict; any other value is not iterable.
\<close>

definition py_iter :: "json \<Rightarrow> py_error + json list" where
  "py_iter v =
     (case v of
        JList xs \<Rightarrow> Inr xs
      | JStr s \<Rightarrow> Inr (map (\<lambda>c. JStr [c]) s)
      | JDict d \<Rightarrow> Inr (map (\<lambda>p. JStr (fst p)) d)
      | _ \<Rightarrow> Inl TypeError)"

definition footer :: "render_state \<Rightarrow> string list" where
  "footer st =
     lines st @ (if in_turn st then [''    end''] else []) @
     ['''', ''    Note over HostApp: Session Ended'', ''```'']"

definition initial_state :: "(string \<times> json) list \<Rightarrow> render_state" where
  "initial_state td = \<lparr>lines = header td, turn_number = 0, in_turn = False\<rparr>"

definition diagram_lines :: "json \<Rightarrow> py_error + string list" where
  "diagram_lines trace_data =
     (case trace_data of
        JDict td \<Rightarrow>
          (case py_iter (dict_get td ''events'' (JList [])) of
             Inl e \<Rightarrow> Inl e
           | Inr events \<Rightarrow>
               (case render_events (initial_state td) events of
                  Inl e \<Rightarrow> Inl e
                | Inr st \<Rightarrow> Inr (footer st)))
      | _ \<Rightarrow> Inl AttributeError)"

definition generate_mermaid_diagram :: "json \<Rightarrow> py_error + string" where
  "generate_mermaid_diagram trace_data =
     (case diagram_lines trace_data of
        Inl e \<Rightarrow> Inl e
      | Inr ls \<Rightarrow> Inr (join [newline] ls))"

text \<open>
  \<^verbatim>\<open>str(Path(s))\<close> on a POSIX system: the text is split at the slashes, empty components
  and single dots are dropped, one leading slash is kept (two are kept as two, three
  or more as one), and the empty path is written as a dot.
\<close>

fun split_on :: "char \<Rightarrow> string \<Rightarrow> string list" where
  "split_on c [] = [[]]"
| "split_on c (x # xs) =
     (if x = c then [] # split_on c xs
      else (case split_on c xs of p # ps \<Rightarrow> (x # p) # ps | [] \<Rightarrow> [[x]]))"

definition path_str :: "string \<Rightarrow> string" where
  "path_str s =
     (let root = (if take 2 s = ''//'' \<and> take 3 s \<noteq> ''///'' then ''//''
                  else if take 1 s = ''/'' then ''/'' else []);
          parts = filter (\<lambda>p. p \<noteq> [] \<and> p \<noteq> ''.'')
                    (split_on (CHR ''/'') (dropWhile (\<lambda>c. c = CHR ''/'') s))
      in if root = [] \<and> parts = [] then ''.'' else root @ join ''/'' parts)"

definition error_name :: "py_error \<Rightarrow> string" where
  "error_name e = (case e of AttributeError \<Rightarrow> ''AttributeError'' | TypeError \<Rightarrow> ''TypeError'')"

text \<open>
  \<^verbatim>\<open>main\<close>. \<open>trace_arg\<close> and \<open>output_arg\<close> are the command line's path and \<^verbatim>\<open>-o\<close> option (an
  empty option counts as absent). \<open>f\<close> is what the script finds at the path: nothing;
  a file whose existence check, opening or reading raises something other than
  \<^verbatim>\<open>JSONDecodeError\<close> (a directory, a file without read permission, bytes that are not
  UTF-8), given by the name of the exception's type; text that is not JSON, given by
  the decoder's message; or the parsed value. \<open>write_raises\<close> is the exception, if any, that creating the
  output directories or writing the file raises. The script prints a message and
  returns 1, or ends with an uncaught exception, or saves the diagram under the output
  path and returns 0.
\<close>

datatype trace_file = Not_found | Read_raises string | Invalid_json string | Parsed json

datatype main_result =
    Exit_1 string
  | Uncaught string
  | Saved string string

definition main ::
  "string \<Rightarrow> string option \<Rightarrow> trace_file \<Rightarrow> string option \<Rightarrow> main_result" where
  "main trace_arg output_arg f write_raises =
     (case f of
        Not_found \<Rightarrow> Exit_1 (''Error: Trace file not found: '' @ path_str trace_arg)
      | Read_raises name \<Rightarrow> Uncaught name
      | Invalid_json e \<Rightarrow> Exit_1 (''Error: Invalid JSON in trace file: '' @ e)
      | Parsed trace_data \<Rightarrow>
          (case generate_mermaid_diagram trace_data of
             Inl e \<Rightarrow> Uncaught (error_name e)
           | Inr diagram \<Rightarrow>
               (case write_raises of
                  Some name \<Rightarrow> Uncaught name
                | None \<Rightarrow>
                    (case output_arg of
                       Some (c # cs) \<Rightarrow> Saved (path_str (c # cs)) diagram
                     | _ \<Rightarrow>
                         (case trace_data of
                            JDict td \<Rightarrow>
                              Saved (path_str (''./diagrams/sequence_'' @
                                       py_str (dict_get td ''session_id'' (JStr ''unknown'')) @
                                       ''.md''))
                                    diagram
                          | _ \<Rightarrow> Uncaught ''AttributeError'')))))"

section \<open>The session trace\<close>

text \<open>
  Modelled from the spec: the class \<^verbatim>\<open>SessionTrace\<close> (module \<^verbatim>\<open>session_trace\<close>, imported by
  \<^verbatim>\<open>conversation.py\<close>) is not among the sources. The spec's Event Log is an ordered,
  append-only sequence of events of seven kinds, each with the payload of its kind; the
  \<open>sequence_index\<close> of an event is its position in the list. A \<^verbatim>\<open>token_usage\<close> event
  carries the per-turn delta and the cumulative totals, four integers each. The
  wall-clock \<open>timestamp\<close> of an event and the \<open>start_time\<close> of a Session are left out;
  \<open>end_time\<close> is absent until the Session is finalized.
\<close>

record tokens =
  input_tokens :: int
  output_tokens :: int
  cache_read_tokens :: int
  cache_write_tokens :: int

datatype trace_event =
    User_input string
  | Llm_request nat "string list"
  | Tool_call string string "(string \<times> json) list"
  | Tool_result string string bool string
  | Llm_response string
  | Token_usage tokens tokens
  | Error_event string string

record session_trace =
  session_id :: string
  trace_model :: string
  trace_system_prompt :: string
  events :: "trace_event list"
  finalized :: bool

text \<open>
  Modelled from the spec: \<^verbatim>\<open>SessionTrace(model, system_prompt)\<close> creates a Session with a
  fresh identifier (an input here) and no events.
\<close>

definition new_trace :: "string \<Rightarrow> string \<Rightarrow> string \<Rightarrow> session_trace" where
  "new_trace sid mdl prompt =
     \<lparr>session_id = sid, trace_model = mdl, trace_system_prompt = prompt,
      events = [], finalized = False\<rparr>"

text \<open>
  Modelled from the spec: \<open>append(event_type, payload)\<close> puts the event at index
  \<open>len(current_log)\<close>; the \<^verbatim>\<open>log_*\<close> methods the orchestrator calls are its instances.
  An unrecoverable storage failure of an append is outside the model.
\<close>

definition append_event :: "trace_event \<Rightarrow> session_trace \<Rightarrow> session_trace" where
  "append_event e t = t\<lparr>events := events t @ [e]\<rparr>"

definition log_user_input :: "string \<Rightarrow> session_trace \<Rightarrow> session_trace" where
  "log_user_input text = append_event (User_input text)"

definition log_llm_request :: "nat \<Rightarrow> string list \<Rightarrow> session_trace \<Rightarrow> session_trace" where
  "log_llm_request messages_count tools = append_event (Llm_request messages_count tools)"

definition log_llm_response :: "string \<Rightarrow> session_trace \<Rightarrow> session_trace" where
  "log_llm_response text = append_event (Llm_response text)"

definition log_token_usage :: "tokens \<Rightarrow> tokens \<Rightarrow> session_trace \<Rightarrow> session_trace" where
  "log_token_usage delta cumulative = append_event (Token_usage delta cumulative)"

definition log_error :: "string \<Rightarrow> string \<Rightarrow> session_trace \<Rightarrow> session_trace" where
  "log_error error_type message = append_event (Error_event error_type message)"

text \<open>
  A raised Python exception, as the handlers read it: \<^verbatim>\<open>type(e).__name__\<close>,
  \<^verbatim>\<open>str(e)\<close>, and whether it is an instance of \<^verbatim>\<open>Exception\<close> (what an
  \<^verbatim>\<open>except Exception\<close> block catches) or of \<^verbatim>\<open>BaseException\<close> only.
\<close>

record exn =
  exn_type :: string
  exn_message :: string
  is_exception :: bool

text \<open>
  Modelled from the spec: \<open>finalize()\<close> stamps \<open>end_time\<close>, writes the session record to
  durable storage and returns its location; a storage error is propagated and leaves
  the Session as it was, able to retry. The storage is the list of records written,
  each under its location; \<open>io\<close> is what the storage answers: an error, or the location.
\<close>

type_synonym storage = "(string \<times> session_trace) list"

definition trace_finalize ::
  "exn + string \<Rightarrow> session_trace \<Rightarrow> storage \<Rightarrow> (exn + string) \<times> session_trace \<times> storage" where
  "trace_finalize io t disk =
     (case io of
        Inl e \<Rightarrow> (Inl e, t, disk)
      | Inr location \<Rightarrow>
          (Inr location, t\<lparr>finalized := True\<rparr>, disk @ [(location, t\<lparr>finalized := True\<rparr>)]))"

section \<open>The conversation orchestrator (backend/core/conversation.py)\<close>

datatype role = User | Assistant

text \<open>
  \<^verbatim>\<open>ConversationManager\<close>: the fields the methods below read and write. The memory tool
  and the client are collaborators; what they do in a call is an input of that call.
\<close>

record manager =
  model :: string
  system_prompt :: string
  messages :: "(role \<times> string) list"
  trace :: session_trace
  total_input_tokens :: int
  total_output_tokens :: int
  total_cache_read_tokens :: int
  total_cache_write_tokens :: int

text \<open>\<^verbatim>\<open>__init__\<close>; \<open>sid\<close> is the identifier the new Session receives.\<close>

definition init :: "string \<Rightarrow> string \<Rightarrow> string \<Rightarrow> manager" where
  "init sid mdl prompt =
     \<lparr>model = mdl, system_prompt = prompt, messages = [],
      trace = new_trace sid mdl prompt,
      total_input_tokens = 0, total_output_tokens = 0,
      total_cache_read_tokens = 0, total_cache_write_tokens = 0\<rparr>"

text \<open>
  The signals of \<^verbatim>\<open>runner.stream_async()\<close>, as far as the loop inspects them:
  a \<^verbatim>\<open>content_block_delta\<close> with the text of its delta when it has one,
  a \<^verbatim>\<open>content_block_start\<close> with its block when it has one (the block's \<open>type\<close>,
  \<open>name\<close> and \<open>id\<close> attributes, each possibly absent), and anything else.
\<close>

record content_block =
  block_type :: "string option"
  block_name :: "string option"
  block_id :: "string option"

datatype stream_event =
    Content_block_delta "string option"
  | Content_block_start "content_block option"
  | Other_signal

text \<open>
  The completed call: the \<open>text\<close> attribute of each content block when it has one, and
  the usage. \<^verbatim>\<open>getattr(usage, name, 0)\<close> reads an attribute that may be absent (the
  outer \<open>None\<close>); a cache attribute that is present holds an integer or Python's
  \<^verbatim>\<open>None\<close> (the inner one).
\<close>

record usage =
  usage_input_tokens :: int
  usage_output_tokens :: int
  cache_read_input_tokens :: "int option option"
  cache_creation_input_tokens :: "int option option"

record response =
  response_content :: "string option list"
  response_usage :: usage

text \<open>
  One run of the external call: the signals it streamed, the events the memory tool
  logged to the trace meanwhile, and how it ended: with an exception of any class
  (raised when the runner is created, while streaming or in \<^verbatim>\<open>until_done_async\<close>, or
  thrown in at a \<^verbatim>\<open>yield\<close> of the loop when the consumer cancels or closes the stream)
  or with the final response.
\<close>

record llm_run =
  stream :: "stream_event list"
  tool_events :: "trace_event list"
  outcome :: "exn + response"

text \<open>The events \<^verbatim>\<open>send_message_streaming\<close> yields.\<close>

datatype out_event =
    Out_text string
  | Out_tool_use_start string string
  | Out_done tokens tokens
  | Out_error string

definition getattr_default :: "'a option \<Rightarrow> 'a \<Rightarrow> 'a" where
  "getattr_default attr dflt = (case attr of None \<Rightarrow> dflt | Some v \<Rightarrow> v)"

text \<open>The body of the \<^verbatim>\<open>async for\<close> loop: what one signal yields and adds to \<open>response_text\<close>.\<close>

fun stream_step :: "stream_event \<Rightarrow> out_event list \<times> string" where
  "stream_step (Content_block_delta (Some chunk)) = ([Out_text chunk], chunk)"
| "stream_step (Content_block_delta None) = ([], [])"
| "stream_step (Content_block_start (Some block)) =
     (if block_type block = Some ''tool_use'' then
        ([Out_tool_use_start (getattr_default (block_name block) ''memory'')
                             (getattr_default (block_id block) [])], [])
      else ([], []))"
| "stream_step (Content_block_start None) = ([], [])"
| "stream_step Other_signal = ([], [])"

fun stream_loop :: "stream_event list \<Rightarrow> out_event list \<times> string" where
  "stream_loop [] = ([], [])"
| "stream_loop (ev # evs) =
     (let (outs, chunk) = stream_step ev; (outs', text) = stream_loop evs
      in (outs @ outs', chunk @ text))"

text \<open>\<^verbatim>\<open>for block in response.content: if hasattr(block, 'text'): ... break\<close>\<close>

fun first_text :: "string option list \<Rightarrow> string option" where
  "first_text [] = None"
| "first_text (Some t # blocks) = Some t"
| "first_text (None # blocks) = first_text blocks"

definition totals :: "manager \<Rightarrow> tokens" where
  "totals m =
     \<lparr>input_tokens = total_input_tokens m, output_tokens = total_output_tokens m,
      cache_read_tokens = total_cache_read_tokens m,
      cache_write_tokens = total_cache_write_tokens m\<rparr>"

text \<open>
  The \<^verbatim>\<open>except Exception\<close> block around the call, given what was yielded so far: an
  exception of class \<^verbatim>\<open>Exception\<close> is logged as an \<open>error\<close> event and yielded as the
  terminal outward \<open>error\<close> event; any other (a \<^verbatim>\<open>BaseException\<close> such as
  \<^verbatim>\<open>asyncio.CancelledError\<close>) is not caught and leaves the method.
\<close>

definition handle_exception ::
  "out_event list \<Rightarrow> exn \<Rightarrow> manager \<Rightarrow> (out_event list \<times> exn option) \<times> manager" where
  "handle_exception outs e m =
     (if is_exception e then
        ((outs @ [Out_error (exn_message e)], None),
         m\<lparr>trace := log_error (exn_type e) (exn_message e) (trace m)\<rparr>)
      else ((outs, Some e), m))"

text \<open>What \<^verbatim>\<open>total += None\<close> raises.\<close>

definition type_error_none :: exn where
  "type_error_none =
     \<lparr>exn_type = ''TypeError'',
      exn_message = ''unsupported operand type(s) for +=: '' @ [squote] @ ''int'' @ [squote] @
                    '' and '' @ [squote] @ ''NoneType'' @ [squote],
      is_exception = True\<rparr>"

text \<open>
  \<^verbatim>\<open>send_message_streaming\<close>: the events yielded, in order, the exception that leaves the
  method if one does, and the manager afterwards. The four counters are updated one
  statement after the other, so a cache field that is \<^verbatim>\<open>None\<close> raises after the counters
  before it were updated.
\<close>

definition send_message_streaming ::
  "llm_run \<Rightarrow> string \<Rightarrow> manager \<Rightarrow> (out_event list \<times> exn option) \<times> manager" where
  "send_message_streaming run user_message m =
     (let m1 = m\<lparr>messages := messages m @ [(User, user_message)],
                 trace := log_user_input user_message (trace m)\<rparr>;
          m2 = m1\<lparr>trace := log_llm_request (length (messages m1)) [''memory''] (trace m1)\<rparr>;
          (outs, streamed) = stream_loop (stream run);
          m3 = m2\<lparr>trace := foldl (\<lambda>t e. append_event e t) (trace m2) (tool_events run)\<rparr>
      in case outcome run of
           Inl e \<Rightarrow> handle_exception outs e m3
         | Inr resp \<Rightarrow>
             (let response_text =
                    (case first_text (response_content resp) of Some t \<Rightarrow> t | None \<Rightarrow> streamed);
                  m4 = m3\<lparr>messages := messages m3 @ [(Assistant, response_text)],
                          trace := log_llm_response response_text (trace m3)\<rparr>;
                  u = response_usage resp;
                  last_input = usage_input_tokens u;
                  last_output = usage_output_tokens u;
                  last_cache_read = getattr_default (cache_read_input_tokens u) (Some 0);
                  last_cache_write = getattr_default (cache_creation_input_tokens u) (Some 0);
                  m5 = m4\<lparr>total_input_tokens := total_input_tokens m4 + last_input\<rparr>;
                  m6 = m5\<lparr>total_output_tokens := total_output_tokens m5 + last_output\<rparr>
              in case last_cache_read of
                   None \<Rightarrow> handle_exception outs type_error_none m6
                 | Some cache_read \<Rightarrow>
                     (let m7 = m6\<lparr>total_cache_read_tokens :=
                                     total_cache_read_tokens m6 + cache_read\<rparr>
                      in case last_cache_write of
                           None \<Rightarrow> handle_exception outs type_error_none m7
                         | Some cache_write \<Rightarrow>
                             (let m8 = m7\<lparr>total_cache_write_tokens :=
                                             total_cache_write_tokens m7 + cache_write\<rparr>;
                                  last_turn = \<lparr>input_tokens = last_input,
                                               output_tokens = last_output,
                                               cache_read_tokens = cache_read,
                                               cache_write_tokens = cache_write\<rparr>;
                                  m9 = m8\<lparr>trace :=
                                            log_token_usage last_turn (totals m8) (trace m8)\<rparr>
                              in ((outs @ [Out_done last_turn (totals m9)], None), m9)))))"

text \<open>
  \<^verbatim>\<open>clear_memories\<close>. \<open>clear_all_memory\<close> is what the memory tool's \<^verbatim>\<open>clear_all_memory()\<close>
  does in this call (it raises, or returns its report), \<open>finalize_io\<close> what the storage
  answers to \<^verbatim>\<open>finalize()\<close>, \<open>new_sid\<close> the identifier of the next Session. The method
  has no handler: an exception leaves it at the statement that raised, with the
  assignments before it done.
\<close>

record reset_env =
  clear_all_memory :: "exn + string"
  finalize_io :: "exn + string"
  new_sid :: string

definition clear_memories ::
  "reset_env \<Rightarrow> manager \<times> storage \<Rightarrow> (exn + string) \<times> manager \<times> storage" where
  "clear_memories env s =
     (let (m, disk) = s in
      case clear_all_memory env of
        Inl e \<Rightarrow> (Inl e, m, disk)
      | Inr result \<Rightarrow>
          (let m1 = m\<lparr>messages := [],
                      total_input_tokens := 0, total_output_tokens := 0,
                      total_cache_read_tokens := 0, total_cache_write_tokens := 0\<rparr>
           in case trace_finalize (finalize_io env) (trace m1) disk of
                (Inl e, t, disk') \<Rightarrow> (Inl e, m1\<lparr>trace := t\<rparr>, disk')
              | (Inr old_trace_file, t, disk') \<Rightarrow>
                  (Inr result,
                   m1\<lparr>trace := new_trace (new_sid env) (model m1) (system_prompt m1)\<rparr>,
                   disk')))"

section \<open>Notions of the specification\<close>

text \<open>The event kinds the render walk has a branch for, and events by kind.\<close>

definition rendered_kinds :: "string list" where
  "rendered_kinds =
     [''user_input'', ''llm_request'', ''tool_call'', ''tool_result'', ''llm_response'', ''error'']"

definition is_kind :: "string \<Rightarrow> json \<Rightarrow> bool" where
  "is_kind k e =
     (case e of JDict ev \<Rightarrow> dict_get ev ''event_type'' JNull = JStr k | _ \<Rightarrow> False)"

definition unrendered :: "json \<Rightarrow> bool" where
  "unrendered e =
     (case e of
        JDict ev \<Rightarrow> dict_get ev ''event_type'' JNull \<notin> JStr ` set rendered_kinds
      | _ \<Rightarrow> False)"

text \<open>
  Whether a region is open after a list of events, given whether one was open before:
  a \<open>user_input\<close> opens, an \<open>llm_response\<close> closes, any other event leaves it.
\<close>

fun open_after :: "bool \<Rightarrow> json list \<Rightarrow> bool" where
  "open_after b [] = b"
| "open_after b (e # es) =
     open_after (is_kind ''user_input'' e \<or> \<not> is_kind ''llm_response'' e \<and> b) es"

text \<open>
  Cutting a text at a budget with the marker of three dots, and the rendering of one
  parameter as \<open>key=value\<close> with the value's \<^verbatim>\<open>repr\<close> cut at 30 characters.
\<close>

definition abbreviated :: "nat \<Rightarrow> string \<Rightarrow> string" where
  "abbreviated n s = (if n < length s then take n s @ ''...'' else s)"

definition key_value :: "string \<times> json \<Rightarrow> string" where
  "key_value p = fst p @ ''='' @ take 30 (py_repr (snd p))"

text \<open>
  Counter consistency of a log: walking the events with the running totals, zero at
  the start, every \<open>token_usage\<close> event records as its cumulative values the running
  totals plus its own delta. \<open>sum_deltas\<close> is the sum of the deltas of a log.
\<close>

definition zero_tokens :: tokens where
  "zero_tokens =
     \<lparr>input_tokens = 0, output_tokens = 0, cache_read_tokens = 0, cache_write_tokens = 0\<rparr>"

definition add_tokens :: "tokens \<Rightarrow> tokens \<Rightarrow> tokens" where
  "add_tokens a b =
     \<lparr>input_tokens = input_tokens a + input_tokens b,
      output_tokens = output_tokens a + output_tokens b,
      cache_read_tokens = cache_read_tokens a + cache_read_tokens b,
      cache_write_tokens = cache_write_tokens a + cache_write_tokens b\<rparr>"

fun sum_deltas :: "trace_event list \<Rightarrow> tokens" where
  "sum_deltas [] = zero_tokens"
| "sum_deltas (Token_usage d c # evs) = add_tokens d (sum_deltas evs)"
| "sum_deltas (_ # evs) = sum_deltas evs"

fun consistent_from :: "tokens \<Rightarrow> trace_event list \<Rightarrow> bool" where
  "consistent_from acc [] = True"
| "consistent_from acc (Token_usage d c # evs) =
     (c = add_tokens acc d \<and> consistent_from (add_tokens acc d) evs)"
| "consistent_from acc (_ # evs) = consistent_from acc evs"

definition counter_consistent :: "trace_event list \<Rightarrow> bool" where
  "counter_consistent evs = consistent_from zero_tokens evs"

text \<open>The events the memory tool logs, and the terminal events of a turn.\<close>

fun is_tool_event :: "trace_event \<Rightarrow> bool" where
  "is_tool_event (Tool_call n c ps) = True"
| "is_tool_event (Tool_result n c ok r) = True"
| "is_tool_event _ = False"

fun is_done :: "out_event \<Rightarrow> bool" where
  "is_done (Out_done d c) = True"
| "is_done _ = False"

fun is_error :: "out_event \<Rightarrow> bool" where
  "is_error (Out_error msg) = True"
| "is_error _ = False"

text \<open>
  The delta of a completed call and the text of its response, as the turn reads them;
  \<open>usage_integers\<close> says that both cache fields, as read, are integers.
\<close>

definition usage_integers :: "response \<Rightarrow> bool" where
  "usage_integers resp =
     (getattr_default (cache_read_input_tokens (response_usage resp)) (Some 0) \<noteq> None \<and>
      getattr_default (cache_creation_input_tokens (response_usage resp)) (Some 0) \<noteq> None)"

definition turn_delta :: "response \<Rightarrow> tokens" where
  "turn_delta resp =
     \<lparr>input_tokens = usage_input_tokens (response_usage resp),
      output_tokens = usage_output_tokens (response_usage resp),
      cache_read_tokens =
        (case getattr_default (cache_read_input_tokens (response_usage resp)) (Some 0) of
           Some v \<Rightarrow> v | None \<Rightarrow> 0),
      cache_write_tokens =
        (case getattr_default (cache_creation_input_tokens (response_usage resp)) (Some 0) of
           Some v \<Rightarrow> v | None \<Rightarrow> 0)\<rparr>"

definition final_text :: "llm_run \<Rightarrow> response \<Rightarrow> string" where
  "final_text run resp =
     (case first_text (response_content resp) of
        Some t \<Rightarrow> t
      | None \<Rightarrow> snd (stream_loop (stream run)))"

text \<open>
  The fields of an event that the render walk reads, and events that agree on them
  (whatever else they hold, such as their timestamps).
\<close>

definition read_keys :: "string list" where
  "read_keys =
     [''event_type'', ''content'', ''tools'', ''tool_name'', ''command'', ''parameters'',
      ''success'', ''error'', ''result'', ''message'']"

definition same_read_fields :: "json \<Rightarrow> json \<Rightarrow> bool" where
  "same_read_fields e1 e2 =
     (case (e1, e2) of
        (JDict d1, JDict d2) \<Rightarrow> (\<forall>k \<in> set read_keys. map_of d1 k = map_of d2 k)
      | _ \<Rightarrow> e1 = e2)"

text \<open>
  The number of closing lines a list of events calls for, given whether a region was
  open before: one for each \<open>llm_response\<close> that arrives while a region is open.
\<close>

fun closings :: "bool \<Rightarrow> json list \<Rightarrow> nat" where
  "closings b [] = 0"
| "closings b (e # es) =
     (if is_kind ''llm_response'' e \<and> b then 1 else 0) +
     closings (is_kind ''user_input'' e \<or> \<not> is_kind ''llm_response'' e \<and> b) es"

section \<open>The render walk, event by event\<close>

lemma render_event_user_input:
  "dict_get ev ''event_type'' JNull = JStr ''user_input'' \<Longrightarrow>
   render_event st (JDict ev) =
     (case escape_value (dict_get ev ''content'' (JStr [])) 50 of
        Inl e \<Rightarrow> Inl e
      | Inr txt \<Rightarrow>
          Inr (st\<lparr>turn_number := turn_number st + 1,
                  lines := lines st @
                    ['''',
                     ''    rect rgb(200, 220, 255)'',
                     ''        Note over User,MemorySystem: Turn '' @
                       str_int (turn_number st + 1) @ '': User Input'',
                     '''',
                     ''        User->>HostApp: '' @ [dquote] @ txt @ [dquote],
                     ''        HostApp->>HostApp: Append to messages''],
                  in_turn := True\<rparr>))"
  by (simp add: render_event_def)

lemma render_event_llm_request:
  "dict_get ev ''event_type'' JNull = JStr ''llm_request'' \<Longrightarrow>
   render_event st (JDict ev) =
     (if in_turn st then
        Inr (st\<lparr>lines := lines st @
                    ['''',
                     ''        HostApp->>LLM: POST /messages<br/>tools: '' @
                       py_str (dict_get ev ''tools'' (JList []))]\<rparr>)
      else Inr st)"
  by (simp add: render_event_def)

lemma render_event_tool_call:
  "dict_get ev ''event_type'' JNull = JStr ''tool_call'' \<Longrightarrow>
   render_event st (JDict ev) =
     (if dict_get ev ''tool_name'' (JStr []) = JStr ''memory'' then
        (case params_str (dict_get ev ''parameters'' (JDict [])) of
           Inl e \<Rightarrow> Inl e
         | Inr ps \<Rightarrow>
             Inr (st\<lparr>lines := lines st @
                    ['''',
                     ''        Note over LLM: Decides to '' @ py_str (dict_get ev ''command'' (JStr [])),
                     ''        LLM->>MemorySystem: '' @ py_str (dict_get ev ''command'' (JStr [])) @
                       ''('' @ ps @ '')'',
                     ''        activate MemorySystem'']\<rparr>))
      else Inr st)"
  by (simp add: render_event_def Let_def)

lemma render_event_tool_result:
  "dict_get ev ''event_type'' JNull = JStr ''tool_result'' \<Longrightarrow>
   render_event st (JDict ev) =
     (if dict_get ev ''tool_name'' (JStr []) = JStr ''memory'' then
        (if truthy (dict_get ev ''success'' (JBool True)) then
           (case escape_value (dict_get ev ''result'' (JStr [])) 40 of
              Inl e \<Rightarrow> Inl e
            | Inr result_preview \<Rightarrow>
                Inr (st\<lparr>lines := lines st @
                       [''        MemorySystem-->>LLM: '' @ result_preview,
                        ''        deactivate MemorySystem'']\<rparr>))
         else
           (case escape_value (if truthy (dict_get ev ''error'' JNull)
                               then dict_get ev ''error'' JNull else JStr ''Error'') 40 of
              Inl e \<Rightarrow> Inl e
            | Inr error_msg \<Rightarrow>
                Inr (st\<lparr>lines := lines st @
                       [''        MemorySystem-->>LLM: ERROR: '' @ error_msg,
                        ''        deactivate MemorySystem'']\<rparr>)))
      else Inr st)"
  by (simp add: render_event_def)

lemma render_event_llm_response:
  "dict_get ev ''event_type'' JNull = JStr ''llm_response'' \<Longrightarrow>
   render_event st (JDict ev) =
     (case escape_value (dict_get ev ''content'' (JStr [])) 60 of
        Inl e \<Rightarrow> Inl e
      | Inr txt \<Rightarrow>
          Inr (st\<lparr>lines := lines st @
                    ['''',
                     ''        Note over LLM: Ready to respond'',
                     ''        LLM-->>HostApp: '' @ [dquote] @ txt @ [dquote],
                     ''        HostApp->>HostApp: Append to messages'',
                     ''        HostApp-->>User: '' @ [dquote] @ txt @ [dquote]] @
                    (if in_turn st then [''    end''] else []),
                  in_turn := False\<rparr>))"
  by (simp add: render_event_def)

lemma render_event_error:
  "dict_get ev ''event_type'' JNull = JStr ''error'' \<Longrightarrow>
   render_event st (JDict ev) =
     (case escape_value (dict_get ev ''message'' (JStr ''Unknown error'')) 40 of
        Inl e \<Rightarrow> Inl e
      | Inr error_msg \<Rightarrow>
          Inr (st\<lparr>lines := lines st @ [''    Note over HostApp: ERROR: '' @ error_msg]\<rparr>))"
  by (simp add: render_event_def)

lemma render_event_other:
  "dict_get ev ''event_type'' JNull \<notin> JStr ` set rendered_kinds \<Longrightarrow>
   render_event st (JDict ev) = Inr st"
  by (simp add: render_event_def rendered_kinds_def)

lemma kinds_cases:
  assumes "t = JStr ''user_input'' \<Longrightarrow> P"
    and "t = JStr ''llm_request'' \<Longrightarrow> P"
    and "t = JStr ''tool_call'' \<Longrightarrow> P"
    and "t = JStr ''tool_result'' \<Longrightarrow> P"
    and "t = JStr ''llm_response'' \<Longrightarrow> P"
    and "t = JStr ''error'' \<Longrightarrow> P"
    and "t \<notin> JStr ` set rendered_kinds \<Longrightarrow> P"
  shows P
  using assms unfolding rendered_kinds_def by auto

lemma render_event_turn_state:
  assumes "render_event st e = Inr st'"
  shows "turn_number st' = turn_number st + (if is_kind ''user_input'' e then 1 else 0) \<and>
         in_turn st' = (is_kind ''user_input'' e \<or> \<not> is_kind ''llm_response'' e \<and> in_turn st)"
proof (cases e)
  case (JDict ev)
  show ?thesis
  proof (rule kinds_cases [of "dict_get ev ''event_type'' JNull"])
    assume t: "dict_get ev ''event_type'' JNull = JStr ''user_input''"
    with assms JDict show ?thesis
      by (auto simp: render_event_user_input is_kind_def split: sum.splits)
  next
    assume t: "dict_get ev ''event_type'' JNull = JStr ''llm_request''"
    with assms JDict show ?thesis
      by (auto simp: render_event_llm_request is_kind_def split: if_splits)
  next
    assume t: "dict_get ev ''event_type'' JNull = JStr ''tool_call''"
    with assms JDict show ?thesis
      by (auto simp: render_event_tool_call is_kind_def split: if_splits sum.splits)
  next
    assume t: "dict_get ev ''event_type'' JNull = JStr ''tool_result''"
    with assms JDict show ?thesis
      by (auto simp: render_event_tool_result is_kind_def split: if_splits sum.splits)
  next
    assume t: "dict_get ev ''event_type'' JNull = JStr ''llm_response''"
    with assms JDict show ?thesis
      by (auto simp: render_event_llm_response is_kind_def split: sum.splits)
  next
    assume t: "dict_get ev ''event_type'' JNull = JStr ''error''"
    with assms JDict show ?thesis
      by (auto simp: render_event_error is_kind_def split: sum.splits)
  next
    assume t: "dict_get ev ''event_type'' JNull \<notin> JStr ` set rendered_kinds"
    then have "dict_get ev ''event_type'' JNull \<noteq> JStr ''user_input''"
      and "dict_get ev ''event_type'' JNull \<noteq> JStr ''llm_response''"
      by (auto simp: rendered_kinds_def)
    with assms JDict t show ?thesis
      by (simp add: render_event_other is_kind_def)
  qed
qed (use assms in \<open>simp_all add: render_event_def\<close>)

lemma render_events_turn_number:
  "render_events st evs = Inr st' \<Longrightarrow>
   turn_number st' = turn_number st + int (length (filter (is_kind ''user_input'') evs))"
proof (induction evs arbitrary: st)
  case Nil
  then show ?case by simp
next
  case (Cons e evs)
  then obtain st1 where s1: "render_event st e = Inr st1" and s2: "render_events st1 evs = Inr st'"
    by (auto split: sum.splits)
  from Cons.IH [OF s2] render_event_turn_state [OF s1] show ?case by simp
qed

lemma replace_newlines_no_newline: "newline \<notin> set (replace_newlines t)"
  by (induction t) (auto simp: replace_newlines_def newline_def)

lemma replace_newlines_dquote: "dquote \<in> set (replace_newlines t) \<Longrightarrow> dquote \<in> set t"
  by (induction t) (auto simp: replace_newlines_def dquote_def split: if_splits)

lemma replace_dquotes_no_dquote: "dquote \<notin> set (replace_dquotes t)"
  by (auto simp: replace_dquotes_def dquote_def squote_def)

lemma replace_dquotes_newline: "newline \<in> set (replace_dquotes t) \<Longrightarrow> newline \<in> set t"
  by (auto simp: replace_dquotes_def newline_def squote_def split: if_splits)

lemma set_slice_to: "set (slice_to n xs) \<subseteq> set xs"
  by (auto simp: slice_to_def dest: in_set_takeD)

lemma escape_text_clean: "newline \<notin> set (escape_text t n) \<and> dquote \<notin> set (escape_text t n)"
proof -
  let ?e = "replace_dquotes (replace_newlines t)"
  have a: "newline \<notin> set ?e" using replace_dquotes_newline replace_newlines_no_newline by blast
  have b: "dquote \<notin> set ?e" by (rule replace_dquotes_no_dquote)
  have c: "newline \<notin> set ''...'' \<and> dquote \<notin> set ''...''" by (simp add: newline_def dquote_def)
  from a b c set_slice_to [of n ?e] show ?thesis
    by (auto simp: escape_text_def Let_def)
qed

lemma length_replace_newlines: "length t \<le> length (replace_newlines t)"
  by (induction t) (auto simp: replace_newlines_def)

lemma length_escaped: "length t \<le> length (replace_dquotes (replace_newlines t))"
  using length_replace_newlines by (simp add: replace_dquotes_def)

lemma escape_text_long:
  assumes "0 \<le> n" and "n < int (length (replace_dquotes (replace_newlines t)))"
  shows "escape_text t n = take (nat n) (replace_dquotes (replace_newlines t)) @ ''...''"
  using assms by (simp add: escape_text_def Let_def slice_to_def)

lemma escape_text_short:
  assumes "int (length (replace_dquotes (replace_newlines t))) \<le> n"
  shows "escape_text t n = replace_dquotes (replace_newlines t)"
  using assms by (simp add: escape_text_def Let_def)

lemma length_escape_text: "0 \<le> n \<Longrightarrow> int (length (escape_text t n)) \<le> n + 3"
  by (auto simp: escape_text_def Let_def slice_to_def)

section \<open>The walk over a list of events\<close>

lemma unrendered_skip: "unrendered e \<Longrightarrow> render_event st e = Inr st"
  by (cases e) (simp_all add: unrendered_def render_event_other)

lemma render_events_filter:
  "render_events st (filter (\<lambda>e. \<not> unrendered e) evs) = render_events st evs"
  by (induction evs arbitrary: st) (auto simp: unrendered_skip split: sum.splits)

lemma header_cong:
  assumes "map_of td1 ''session_id'' = map_of td2 ''session_id''"
    and "map_of td1 ''start_time'' = map_of td2 ''start_time''"
    and "map_of td1 ''model'' = map_of td2 ''model''"
  shows "header td1 = header td2"
  using assms by (simp add: header_def dict_get_def)

lemma diagram_lines_cong:
  assumes "header td1 = header td2"
    and "render_events (initial_state td2) evs1 = render_events (initial_state td2) evs2"
    and "py_iter (dict_get td1 ''events'' (JList [])) = Inr evs1"
    and "py_iter (dict_get td2 ''events'' (JList [])) = Inr evs2"
  shows "diagram_lines (JDict td1) = diagram_lines (JDict td2)"
  using assms by (simp add: diagram_lines_def initial_state_def)

lemma render_event_read_fields_dict:
  assumes a: "\<forall>k \<in> set read_keys. map_of d1 k = map_of d2 k"
  shows "render_event st (JDict d1) = render_event st (JDict d2)"
proof -
  have g: "dict_get d1 ''event_type'' = dict_get d2 ''event_type''"
    "dict_get d1 ''content'' = dict_get d2 ''content''"
    "dict_get d1 ''tools'' = dict_get d2 ''tools''"
    "dict_get d1 ''tool_name'' = dict_get d2 ''tool_name''"
    "dict_get d1 ''command'' = dict_get d2 ''command''"
    "dict_get d1 ''parameters'' = dict_get d2 ''parameters''"
    "dict_get d1 ''success'' = dict_get d2 ''success''"
    "dict_get d1 ''error'' = dict_get d2 ''error''"
    "dict_get d1 ''result'' = dict_get d2 ''result''"
    "dict_get d1 ''message'' = dict_get d2 ''message''"
    using a by (auto simp: fun_eq_iff dict_get_def read_keys_def)
  show ?thesis
    unfolding render_event_def json.case g ..
qed

lemma render_event_read_fields:
  "same_read_fields e1 e2 \<Longrightarrow> render_event st e1 = render_event st e2"
  by (cases e1; cases e2) (simp_all add: same_read_fields_def render_event_read_fields_dict)

lemma render_events_read_fields:
  "list_all2 same_read_fields es1 es2 \<Longrightarrow> render_events st es1 = render_events st es2"
proof (induction es1 es2 arbitrary: st rule: list_all2_induct)
  case Nil
  show ?case by simp
next
  case (Cons e1 es1 e2 es2)
  then show ?case
    by (simp add: render_event_read_fields [of e1 e2] split: sum.splits)
qed

section \<open>Turns: what opens and what closes a framed region\<close>

lemma user_input_step:
  assumes "dict_get ev ''event_type'' JNull = JStr ''user_input''"
    and "dict_get ev ''content'' (JStr []) = JStr c"
  shows "render_event st (JDict ev) =
     Inr (st\<lparr>turn_number := turn_number st + 1,
             lines := lines st @
               ['''',
                ''    rect rgb(200, 220, 255)'',
                ''        Note over User,MemorySystem: Turn '' @
                  str_int (turn_number st + 1) @ '': User Input'',
                '''',
                ''        User->>HostApp: '' @ [dquote] @ escape_text c 50 @ [dquote],
                ''        HostApp->>HostApp: Append to messages''],
             in_turn := True\<rparr>)"
  using assms by (simp add: render_event_user_input escape_value_def)

lemma llm_response_step:
  assumes "dict_get ev ''event_type'' JNull = JStr ''llm_response''"
    and "dict_get ev ''content'' (JStr []) = JStr c"
  shows "render_event st (JDict ev) =
     Inr (st\<lparr>lines := lines st @
               ['''',
                ''        Note over LLM: Ready to respond'',
                ''        LLM-->>HostApp: '' @ [dquote] @ escape_text c 60 @ [dquote],
                ''        HostApp->>HostApp: Append to messages'',
                ''        HostApp-->>User: '' @ [dquote] @ escape_text c 60 @ [dquote]] @
               (if in_turn st then [''    end''] else []),
             in_turn := False\<rparr>)"
  using assms by (simp add: render_event_llm_response escape_value_def)

lemma user_input_closes_nothing:
  assumes "dict_get ev ''event_type'' JNull = JStr ''user_input''"
    and "render_event st (JDict ev) = Inr st'"
  shows "count_list (lines st') ''    end'' = count_list (lines st) ''    end''"
  using assms by (auto simp: render_event_user_input split: sum.splits)

lemma llm_response_closes_open_turn:
  assumes "dict_get ev ''event_type'' JNull = JStr ''llm_response''"
    and "render_event st (JDict ev) = Inr st'"
  shows "count_list (lines st') ''    end'' =
         count_list (lines st) ''    end'' + (if in_turn st then 1 else 0)"
  using assms by (auto simp: render_event_llm_response split: sum.splits)

lemma render_event_counts:
  assumes "render_event st e = Inr st'"
  shows "count_list (lines st') ''    end'' =
           count_list (lines st) ''    end'' +
           (if is_kind ''llm_response'' e \<and> in_turn st then 1 else 0) \<and>
         count_list (lines st') ''    rect rgb(200, 220, 255)'' =
           count_list (lines st) ''    rect rgb(200, 220, 255)'' +
           (if is_kind ''user_input'' e then 1 else 0)"
proof (cases e)
  case (JDict ev)
  show ?thesis
  proof (rule kinds_cases [of "dict_get ev ''event_type'' JNull"])
    assume "dict_get ev ''event_type'' JNull = JStr ''user_input''"
    with assms JDict show ?thesis
      by (auto simp: render_event_user_input is_kind_def split: sum.splits)
  next
    assume "dict_get ev ''event_type'' JNull = JStr ''llm_request''"
    with assms JDict show ?thesis
      by (auto simp: render_event_llm_request is_kind_def split: if_splits)
  next
    assume "dict_get ev ''event_type'' JNull = JStr ''tool_call''"
    with assms JDict show ?thesis
      by (auto simp: render_event_tool_call is_kind_def split: if_splits sum.splits)
  next
    assume "dict_get ev ''event_type'' JNull = JStr ''tool_result''"
    with assms JDict show ?thesis
      by (auto simp: render_event_tool_result is_kind_def split: if_splits sum.splits)
  next
    assume "dict_get ev ''event_type'' JNull = JStr ''llm_response''"
    with assms JDict show ?thesis
      by (auto simp: render_event_llm_response is_kind_def split: sum.splits)
  next
    assume "dict_get ev ''event_type'' JNull = JStr ''error''"
    with assms JDict show ?thesis
      by (auto simp: render_event_error is_kind_def split: sum.splits)
  next
    assume t: "dict_get ev ''event_type'' JNull \<notin> JStr ` set rendered_kinds"
    then have "dict_get ev ''event_type'' JNull \<noteq> JStr ''user_input''"
      and "dict_get ev ''event_type'' JNull \<noteq> JStr ''llm_response''"
      by (auto simp: rendered_kinds_def)
    with assms JDict t show ?thesis
      by (simp add: render_event_other is_kind_def)
  qed
qed (use assms in \<open>simp_all add: render_event_def\<close>)

lemma render_events_open_after:
  "render_events st evs = Inr st' \<Longrightarrow> in_turn st' = open_after (in_turn st) evs"
proof (induction evs arbitrary: st)
  case Nil
  then show ?case by simp
next
  case (Cons e evs)
  then obtain st1 where s1: "render_event st e = Inr st1" and s2: "render_events st1 evs = Inr st'"
    by (auto split: sum.splits)
  from Cons.IH [OF s2] render_event_turn_state [OF s1] show ?case by simp
qed

lemma render_events_counts:
  "render_events st evs = Inr st' \<Longrightarrow>
   count_list (lines st') ''    end'' =
     count_list (lines st) ''    end'' + closings (in_turn st) evs \<and>
   count_list (lines st') ''    rect rgb(200, 220, 255)'' =
     count_list (lines st) ''    rect rgb(200, 220, 255)'' +
     length (filter (is_kind ''user_input'') evs)"
proof (induction evs arbitrary: st)
  case Nil
  then show ?case by simp
next
  case (Cons e evs)
  then obtain st1 where s1: "render_event st e = Inr st1" and s2: "render_events st1 evs = Inr st'"
    by (auto split: sum.splits)
  from Cons.IH [OF s2] render_event_counts [OF s1] render_event_turn_state [OF s1]
  show ?case by simp
qed

lemma header_counts:
  "count_list (header td) ''    end'' = 0"
  "count_list (header td) ''    rect rgb(200, 220, 255)'' = 0"
  by (simp_all add: header_def)

lemma diagram_lines_walk:
  assumes "map_of td ''events'' = Some (JList evs)"
  shows "diagram_lines (JDict td) =
     (case render_events (initial_state td) evs of
        Inl x \<Rightarrow> Inl x
      | Inr st \<Rightarrow>
          Inr (lines st @ (if open_after False evs then [''    end''] else []) @
               ['''', ''    Note over HostApp: Session Ended'', ''```'']))"
proof (cases "render_events (initial_state td) evs")
  case (Inl x)
  with assms show ?thesis
    by (simp add: diagram_lines_def dict_get_def py_iter_def)
next
  case (Inr st)
  from render_events_open_after [OF Inr] have "in_turn st = open_after False evs"
    by (simp add: initial_state_def)
  with assms Inr show ?thesis
    by (simp add: diagram_lines_def dict_get_def py_iter_def footer_def)
qed

lemma diagram_lines_counts:
  assumes e: "map_of td ''events'' = Some (JList evs)"
    and d: "diagram_lines (JDict td) = Inr ls"
  shows "count_list ls ''    end'' =
           closings False evs + (if open_after False evs then 1 else 0) \<and>
         count_list ls ''    rect rgb(200, 220, 255)'' =
           length (filter (is_kind ''user_input'') evs)"
proof -
  from d obtain st where r: "render_events (initial_state td) evs = Inr st"
    and l: "ls = lines st @ (if open_after False evs then [''    end''] else []) @
                 ['''', ''    Note over HostApp: Session Ended'', ''```'']"
    unfolding diagram_lines_walk [OF e] by (auto split: sum.splits)
  from render_events_counts [OF r] header_counts [of td]
  have "count_list (lines st) ''    end'' = closings False evs"
    and "count_list (lines st) ''    rect rgb(200, 220, 255)'' =
         length (filter (is_kind ''user_input'') evs)"
    by (simp_all add: initial_state_def)
  then show ?thesis
    unfolding l by simp
qed

lemma str_int_digits: "str_int 1 = ''1''" "str_int 2 = ''2''"
  by code_simp+

lemma two_user_inputs_walk:
  "render_events \<lparr>lines = h, turn_number = 0, in_turn = False\<rparr>
     [JDict [(''event_type'', JStr ''user_input''), (''content'', JStr ''hi'')],
      JDict [(''event_type'', JStr ''user_input''), (''content'', JStr ''again'')]] =
   Inr \<lparr>lines = h @
          ['''',
           ''    rect rgb(200, 220, 255)'',
           ''        Note over User,MemorySystem: Turn 1: User Input'',
           '''',
           ''        User->>HostApp: '' @ [dquote] @ ''hi'' @ [dquote],
           ''        HostApp->>HostApp: Append to messages'',
           '''',
           ''    rect rgb(200, 220, 255)'',
           ''        Note over User,MemorySystem: Turn 2: User Input'',
           '''',
           ''        User->>HostApp: '' @ [dquote] @ ''again'' @ [dquote],
           ''        HostApp->>HostApp: Append to messages''],
        turn_number = 2, in_turn = True\<rparr>"
  by (simp add: render_event_def dict_get_def escape_value_def escape_text_def
        replace_newlines_def replace_dquotes_def newline_def dquote_def squote_def
        str_int_digits Let_def)

section \<open>Annotations of tool calls, tool results and errors\<close>

lemma params_str_dict:
  "params_str (JDict ps) = Inr (abbreviated 50 (join '', '' (map key_value ps)))"
proof -
  have "(\<lambda>(k, v). k @ ''='' @ slice_to 30 (py_repr v)) = key_value"
    by (auto simp: key_value_def slice_to_def fun_eq_iff)
  then show ?thesis
    by (simp add: params_str_def abbreviated_def slice_to_def Let_def)
qed

lemma length_abbreviated: "length (abbreviated n s) \<le> n + 3"
  by (simp add: abbreviated_def)

lemma tool_call_step:
  assumes "dict_get ev ''event_type'' JNull = JStr ''tool_call''"
    and "dict_get ev ''tool_name'' (JStr []) = JStr ''memory''"
    and "dict_get ev ''parameters'' (JDict []) = JDict ps"
  shows "render_event st (JDict ev) =
     Inr (st\<lparr>lines := lines st @
            ['''',
             ''        Note over LLM: Decides to '' @ py_str (dict_get ev ''command'' (JStr [])),
             ''        LLM->>MemorySystem: '' @ py_str (dict_get ev ''command'' (JStr [])) @
               ''('' @ abbreviated 50 (join '', '' (map key_value ps)) @ '')'',
             ''        activate MemorySystem'']\<rparr>)"
  using assms by (simp add: render_event_tool_call params_str_dict)

lemma tool_result_success_step:
  assumes "dict_get ev ''event_type'' JNull = JStr ''tool_result''"
    and "dict_get ev ''tool_name'' (JStr []) = JStr ''memory''"
    and "truthy (dict_get ev ''success'' (JBool True))"
    and "dict_get ev ''result'' (JStr []) = JStr t"
  shows "render_event st (JDict ev) =
     Inr (st\<lparr>lines := lines st @
            [''        MemorySystem-->>LLM: '' @ escape_text t 40,
             ''        deactivate MemorySystem'']\<rparr>)"
  using assms by (simp add: render_event_tool_result escape_value_def)

lemma tool_result_failure_step:
  assumes "dict_get ev ''event_type'' JNull = JStr ''tool_result''"
    and "dict_get ev ''tool_name'' (JStr []) = JStr ''memory''"
    and "\<not> truthy (dict_get ev ''success'' (JBool True))"
  shows "render_event st (JDict ev) =
     (case escape_value (if truthy (dict_get ev ''error'' JNull)
                         then dict_get ev ''error'' JNull else JStr ''Error'') 40 of
        Inl e \<Rightarrow> Inl e
      | Inr error_msg \<Rightarrow>
          Inr (st\<lparr>lines := lines st @
                 [''        MemorySystem-->>LLM: ERROR: '' @ error_msg,
                  ''        deactivate MemorySystem'']\<rparr>))"
  using assms by (simp add: render_event_tool_result)

lemma tool_result_error_text_step:
  assumes "dict_get ev ''event_type'' JNull = JStr ''tool_result''"
    and "dict_get ev ''tool_name'' (JStr []) = JStr ''memory''"
    and "\<not> truthy (dict_get ev ''success'' (JBool True))"
    and "dict_get ev ''error'' JNull = JStr t" and "t \<noteq> []"
  shows "render_event st (JDict ev) =
     Inr (st\<lparr>lines := lines st @
            [''        MemorySystem-->>LLM: ERROR: '' @ escape_text t 40,
             ''        deactivate MemorySystem'']\<rparr>)"
  using assms by (simp add: tool_result_failure_step escape_value_def)

lemma tool_result_no_error_text_step:
  assumes "dict_get ev ''event_type'' JNull = JStr ''tool_result''"
    and "dict_get ev ''tool_name'' (JStr []) = JStr ''memory''"
    and "\<not> truthy (dict_get ev ''success'' (JBool True))"
    and "\<not> truthy (dict_get ev ''error'' JNull)"
  shows "render_event st (JDict ev) =
     Inr (st\<lparr>lines := lines st @
            [''        MemorySystem-->>LLM: ERROR: Error'',
             ''        deactivate MemorySystem'']\<rparr>)"
  using assms
  by (simp add: tool_result_failure_step escape_value_def escape_text_def
        replace_newlines_def replace_dquotes_def newline_def dquote_def)

lemma other_tool_step:
  assumes "dict_get ev ''event_type'' JNull = JStr ''tool_call'' \<or>
           dict_get ev ''event_type'' JNull = JStr ''tool_result''"
    and "dict_get ev ''tool_name'' (JStr []) \<noteq> JStr ''memory''"
  shows "render_event st (JDict ev) = Inr st"
  using assms by (auto simp: render_event_tool_call render_event_tool_result)

lemma error_step:
  assumes "dict_get ev ''event_type'' JNull = JStr ''error''"
    and "dict_get ev ''message'' (JStr ''Unknown error'') = JStr t"
  shows "render_event st (JDict ev) =
     Inr (st\<lparr>lines := lines st @ [''    Note over HostApp: ERROR: '' @ escape_text t 40]\<rparr>)"
  using assms by (simp add: render_event_error escape_value_def)

lemma diagram_lines_no_events:
  assumes "map_of td ''events'' = None"
  shows "diagram_lines (JDict td) =
         Inr (header td @ ['''', ''    Note over HostApp: Session Ended'', ''```''])"
  using assms
  by (simp add: diagram_lines_def dict_get_def py_iter_def initial_state_def footer_def)

lemma generate_not_dict:
  "(case v of JDict d \<Rightarrow> False | _ \<Rightarrow> True) \<Longrightarrow> generate_mermaid_diagram v = Inl AttributeError"
  by (cases v) (simp_all add: generate_mermaid_diagram_def diagram_lines_def)

section \<open>The orchestrator: one turn, step by step\<close>

lemma foldl_append_event:
  "foldl (\<lambda>t e. append_event e t) t es = t\<lparr>events := events t @ es\<rparr>"
  by (induction es arbitrary: t) (simp_all add: append_event_def)

lemma foldl_append_event_unfolded:
  "foldl (\<lambda>t e. t\<lparr>events := events t @ [e]\<rparr>) (t :: session_trace) es =
   t\<lparr>events := events t @ es\<rparr>"
  using foldl_append_event [of t es] by (simp add: append_event_def)

lemma send_message_streaming_failure:
  assumes "outcome run = Inl e" and "is_exception e"
  shows "send_message_streaming run msg m =
     ((fst (stream_loop (stream run)) @ [Out_error (exn_message e)], None),
      m\<lparr>messages := messages m @ [(User, msg)],
        trace := (trace m)\<lparr>events := events (trace m) @
          [User_input msg, Llm_request (Suc (length (messages m))) [''memory'']] @
          tool_events run @ [Error_event (exn_type e) (exn_message e)]\<rparr>\<rparr>)"
  using assms
  by (simp add: send_message_streaming_def handle_exception_def Let_def
        foldl_append_event_unfolded log_user_input_def log_llm_request_def log_error_def
        append_event_def split_def)

lemma send_message_streaming_escape:
  assumes "outcome run = Inl e" and "\<not> is_exception e"
  shows "send_message_streaming run msg m =
     ((fst (stream_loop (stream run)), Some e),
      m\<lparr>messages := messages m @ [(User, msg)],
        trace := (trace m)\<lparr>events := events (trace m) @
          [User_input msg, Llm_request (Suc (length (messages m))) [''memory'']] @
          tool_events run\<rparr>\<rparr>)"
  using assms
  by (simp add: send_message_streaming_def handle_exception_def Let_def
        foldl_append_event_unfolded log_user_input_def log_llm_request_def
        append_event_def split_def)

lemma send_message_streaming_success:
  assumes "outcome run = Inr resp" and "usage_integers resp"
  shows "send_message_streaming run msg m =
     ((fst (stream_loop (stream run)) @
        [Out_done (turn_delta resp) (add_tokens (totals m) (turn_delta resp))], None),
      m\<lparr>messages := messages m @ [(User, msg), (Assistant, final_text run resp)],
        trace := (trace m)\<lparr>events := events (trace m) @
          [User_input msg, Llm_request (Suc (length (messages m))) [''memory'']] @
          tool_events run @
          [Llm_response (final_text run resp),
           Token_usage (turn_delta resp) (add_tokens (totals m) (turn_delta resp))]\<rparr>,
        total_input_tokens := total_input_tokens m + input_tokens (turn_delta resp),
        total_output_tokens := total_output_tokens m + output_tokens (turn_delta resp),
        total_cache_read_tokens := total_cache_read_tokens m + cache_read_tokens (turn_delta resp),
        total_cache_write_tokens :=
          total_cache_write_tokens m + cache_write_tokens (turn_delta resp)\<rparr>)"
proof -
  from assms(2) obtain cr cw
    where cr: "getattr_default (cache_read_input_tokens (response_usage resp)) (Some 0) = Some cr"
      and cw: "getattr_default (cache_creation_input_tokens (response_usage resp)) (Some 0) = Some cw"
    by (auto simp: usage_integers_def)
  from assms(1) cr cw show ?thesis
    by (simp add: send_message_streaming_def Let_def foldl_append_event_unfolded
          log_user_input_def log_llm_request_def log_llm_response_def log_token_usage_def
          append_event_def turn_delta_def final_text_def totals_def add_tokens_def split_def)
qed

lemma messages_handle_exception:
  "messages (snd (handle_exception outs e m)) = messages m"
  by (simp add: handle_exception_def)

lemma send_message_streaming_messages_failed:
  assumes "outcome run = Inl e"
  shows "messages (snd (send_message_streaming run msg m)) = messages m @ [(User, msg)]"
  using assms
  by (cases "is_exception e")
     (simp_all add: send_message_streaming_failure send_message_streaming_escape)

lemma send_message_streaming_messages_completed:
  assumes "outcome run = Inr resp"
  shows "messages (snd (send_message_streaming run msg m)) =
         messages m @ [(User, msg), (Assistant, final_text run resp)]"
  using assms
  by (simp add: send_message_streaming_def Let_def split_def final_text_def
        messages_handle_exception split: option.splits)

lemma stream_step_not_done: "\<not> list_ex is_done (fst (stream_step s))"
  by (cases s rule: stream_step.cases) simp_all

lemma stream_loop_not_done: "\<not> list_ex is_done (fst (stream_loop ss))"
proof (induction ss)
  case Nil
  show ?case by simp
next
  case (Cons s ss)
  with stream_step_not_done [of s] show ?case
    by (simp add: split_def Let_def)
qed

lemma stream_step_not_error: "\<not> list_ex is_error (fst (stream_step s))"
  by (cases s rule: stream_step.cases) simp_all

lemma stream_loop_not_error: "\<not> list_ex is_error (fst (stream_loop ss))"
proof (induction ss)
  case Nil
  show ?case by simp
next
  case (Cons s ss)
  with stream_step_not_error [of s] show ?case
    by (simp add: split_def Let_def)
qed

lemma add_tokens_zero [simp]: "add_tokens zero_tokens a = a" "add_tokens a zero_tokens = a"
  by (simp_all add: add_tokens_def zero_tokens_def)

lemma add_tokens_assoc: "add_tokens (add_tokens a b) c = add_tokens a (add_tokens b c)"
  by (simp add: add_tokens_def)

lemma sum_deltas_append: "sum_deltas (xs @ ys) = add_tokens (sum_deltas xs) (sum_deltas ys)"
  by (induction xs rule: sum_deltas.induct) (simp_all add: add_tokens_assoc)

lemma consistent_from_append:
  "consistent_from acc (xs @ ys) =
     (consistent_from acc xs \<and> consistent_from (add_tokens acc (sum_deltas xs)) ys)"
  by (induction acc xs rule: consistent_from.induct) (auto simp: add_tokens_assoc)

lemma sum_deltas_tool_events:
  "\<forall>e \<in> set es. is_tool_event e \<Longrightarrow> sum_deltas es = zero_tokens"
  by (induction es rule: sum_deltas.induct) simp_all

lemma consistent_from_tool_events:
  "\<forall>e \<in> set es. is_tool_event e \<Longrightarrow> consistent_from acc es"
  by (induction acc es rule: consistent_from.induct) simp_all

lemma init_counter_consistent:
  "counter_consistent (events (trace (init sid mdl prompt))) \<and>
   totals (init sid mdl prompt) = sum_deltas (events (trace (init sid mdl prompt)))"
  by (simp add: init_def new_trace_def counter_consistent_def totals_def zero_tokens_def)

lemma turn_preserves_counter_consistency:
  assumes c: "counter_consistent (events (trace m))"
    and t: "totals m = sum_deltas (events (trace m))"
    and tool: "\<forall>e \<in> set (tool_events run). is_tool_event e"
    and u: "\<And>resp. outcome run = Inr resp \<Longrightarrow> usage_integers resp"
  shows "counter_consistent (events (trace (snd (send_message_streaming run msg m)))) \<and>
         totals (snd (send_message_streaming run msg m)) =
           sum_deltas (events (trace (snd (send_message_streaming run msg m))))"
proof (cases "outcome run")
  case (Inl e)
  show ?thesis
  proof (cases "is_exception e")
    case True
    from c t tool show ?thesis
      by (simp add: send_message_streaming_failure [OF Inl True] counter_consistent_def
            consistent_from_append sum_deltas_append sum_deltas_tool_events
            consistent_from_tool_events totals_def)
  next
    case False
    from c t tool show ?thesis
      by (simp add: send_message_streaming_escape [OF Inl False] counter_consistent_def
            consistent_from_append sum_deltas_append sum_deltas_tool_events
            consistent_from_tool_events totals_def)
  qed
next
  case (Inr resp)
  note s = send_message_streaming_success [OF Inr u [OF Inr]]
  have tt: "totals (snd (send_message_streaming run msg m)) = add_tokens (totals m) (turn_delta resp)"
    by (simp add: s totals_def add_tokens_def)
  from c t tool show ?thesis
    unfolding tt
    by (simp add: s counter_consistent_def consistent_from_append sum_deltas_append
          sum_deltas_tool_events consistent_from_tool_events)
qed

section \<open>Claims about the renderer\<close>

text \<open>
  C2. The renderer is a function of the Session value alone: the source reads nothing
  but its argument, so the same input gives the same text (or the same exception) on
  every call. More is true. Of the session record it reads only the fields
  \<open>session_id\<close>, \<open>start_time\<close>, \<open>model\<close> and \<open>events\<close>, so two records that agree on these
  four render to identical output whatever else they hold; and of an event it reads
  only the fields of its payload, so two logs whose events agree on those, and differ
  for instance in their timestamps, render to identical output as well.
\<close>

theorem generate_mermaid_diagram_deterministic:
  "((\<forall>k \<in> {''session_id'', ''start_time'', ''model'', ''events''}. map_of td1 k = map_of td2 k) \<longrightarrow>
      generate_mermaid_diagram (JDict td1) = generate_mermaid_diagram (JDict td2)) \<and>
   ((\<forall>k \<in> {''session_id'', ''start_time'', ''model''}. map_of td1 k = map_of td2 k) \<longrightarrow>
    map_of td1 ''events'' = Some (JList es1) \<longrightarrow>
    map_of td2 ''events'' = Some (JList es2) \<longrightarrow>
    list_all2 same_read_fields es1 es2 \<longrightarrow>
      generate_mermaid_diagram (JDict td1) = generate_mermaid_diagram (JDict td2))"
proof (intro conjI impI)
  assume a: "\<forall>k \<in> {''session_id'', ''start_time'', ''model'', ''events''}. map_of td1 k = map_of td2 k"
  then have h: "header td1 = header td2"
    by (intro header_cong) simp_all
  from a have e: "dict_get td1 ''events'' (JList []) = dict_get td2 ''events'' (JList [])"
    by (simp add: dict_get_def)
  have "diagram_lines (JDict td1) = diagram_lines (JDict td2)"
    by (simp add: diagram_lines_def initial_state_def h e split: sum.splits)
  then show "generate_mermaid_diagram (JDict td1) = generate_mermaid_diagram (JDict td2)"
    by (simp add: generate_mermaid_diagram_def)
next
  assume a: "\<forall>k \<in> {''session_id'', ''start_time'', ''model''}. map_of td1 k = map_of td2 k"
    and e1: "map_of td1 ''events'' = Some (JList es1)"
    and e2: "map_of td2 ''events'' = Some (JList es2)"
    and r: "list_all2 same_read_fields es1 es2"
  from a have h: "header td1 = header td2"
    by (intro header_cong) simp_all
  have "diagram_lines (JDict td1) = diagram_lines (JDict td2)"
  proof (rule diagram_lines_cong [OF h])
    show "py_iter (dict_get td1 ''events'' (JList [])) = Inr es1"
      using e1 by (simp add: dict_get_def py_iter_def)
    show "py_iter (dict_get td2 ''events'' (JList [])) = Inr es2"
      using e2 by (simp add: dict_get_def py_iter_def)
    show "render_events (initial_state td2) es1 = render_events (initial_state td2) es2"
      using r by (rule render_events_read_fields)
  qed
  then show "generate_mermaid_diagram (JDict td1) = generate_mermaid_diagram (JDict td2)"
    by (simp add: generate_mermaid_diagram_def)
qed

theorem generate_mermaid_diagram_deterministic_witness:
  "generate_mermaid_diagram
     (JDict [(''session_id'', JStr ''s1''), (''end_time'', JNull),
             (''events'', JList [JDict [(''event_type'', JStr ''user_input''),
                                        (''timestamp'', JStr ''2025-01-01T10:00:00''),
                                        (''content'', JStr ''hi'')]])]) =
   generate_mermaid_diagram
     (JDict [(''system_prompt'', JStr ''be brief''), (''session_id'', JStr ''s1''),
             (''events'', JList [JDict [(''timestamp'', JStr ''2026-06-30T23:59:59''),
                                        (''event_type'', JStr ''user_input''),
                                        (''content'', JStr ''hi'')]]),
             (''end_time'', JStr ''2026-07-01T00:00:00'')])"
proof -
  let ?e1 = "JDict [(''event_type'', JStr ''user_input''),
                    (''timestamp'', JStr ''2025-01-01T10:00:00''), (''content'', JStr ''hi'')]"
  let ?e2 = "JDict [(''timestamp'', JStr ''2026-06-30T23:59:59''),
                    (''event_type'', JStr ''user_input''), (''content'', JStr ''hi'')]"
  let ?td1 = "[(''session_id'', JStr ''s1''), (''end_time'', JNull), (''events'', JList [?e1])]"
  let ?td2 = "[(''system_prompt'', JStr ''be brief''), (''session_id'', JStr ''s1''),
               (''events'', JList [?e2]), (''end_time'', JStr ''2026-07-01T00:00:00'')]"
  have r: "list_all2 same_read_fields [?e1] [?e2]"
    by (simp add: same_read_fields_def read_keys_def)
  have k: "\<forall>k \<in> {''session_id'', ''start_time'', ''model''}. map_of ?td1 k = map_of ?td2 k"
    by simp
  have e1: "map_of ?td1 ''events'' = Some (JList [?e1])"
    and e2: "map_of ?td2 ''events'' = Some (JList [?e2])"
    by simp_all
  from generate_mermaid_diagram_deterministic
         [where ?td1.0 = "?td1" and ?td2.0 = "?td2" and ?es1.0 = "[?e1]" and ?es2.0 = "[?e2]"]
       k e1 e2 r
  show ?thesis by blast
qed

text \<open>
  C4. The walk takes the events in the order of the log and keeps a turn counter, 0
  at the start, and one boolean, initially false. A \<open>user_input\<close> event adds 1 to the
  counter, opens a region labelled with the new number and sets the boolean, and it
  emits no closing line, whether or not a region was open: two \<open>user_input\<close> events in
  a row leave the first region unclosed. An \<open>llm_response\<close> event emits the closing line
  exactly when the boolean is set, and clears it. No other event changes the counter
  or the boolean, so after the walk the counter is the number of \<open>user_input\<close> events.
  At the end of the walk a region still open is closed before the footer: the diagram
  is the lines of the walk, then the closing line if a region is open after the last
  event, then the footer. Counted over the whole diagram, there is one opening line
  for each \<open>user_input\<close> event, and one closing line for each \<open>llm_response\<close> that met an
  open region plus one if a region was left open.
\<close>

theorem render_walk_open_turn_state:
  "turn_number (initial_state td) = 0 \<and> \<not> in_turn (initial_state td) \<and>
   lines (initial_state td) = header td \<and>
   render_events st [] = Inr st \<and>
   render_events st (e # evs) =
     (case render_event st e of Inl x \<Rightarrow> Inl x | Inr st1 \<Rightarrow> render_events st1 evs) \<and>
   (dict_get ev ''event_type'' JNull = JStr ''user_input'' \<longrightarrow>
    dict_get ev ''content'' (JStr []) = JStr c \<longrightarrow>
      render_event st (JDict ev) =
        Inr (st\<lparr>turn_number := turn_number st + 1,
                lines := lines st @
                  ['''',
                   ''    rect rgb(200, 220, 255)'',
                   ''        Note over User,MemorySystem: Turn '' @
                     str_int (turn_number st + 1) @ '': User Input'',
                   '''',
                   ''        User->>HostApp: '' @ [dquote] @ escape_text c 50 @ [dquote],
                   ''        HostApp->>HostApp: Append to messages''],
                in_turn := True\<rparr>)) \<and>
   (dict_get ev ''event_type'' JNull = JStr ''user_input'' \<longrightarrow>
    render_event st (JDict ev) = Inr st' \<longrightarrow>
      count_list (lines st') ''    end'' = count_list (lines st) ''    end'') \<and>
   (dict_get ev ''event_type'' JNull = JStr ''llm_response'' \<longrightarrow>
    dict_get ev ''content'' (JStr []) = JStr c \<longrightarrow>
      render_event st (JDict ev) =
        Inr (st\<lparr>lines := lines st @
                  ['''',
                   ''        Note over LLM: Ready to respond'',
                   ''        LLM-->>HostApp: '' @ [dquote] @ escape_text c 60 @ [dquote],
                   ''        HostApp->>HostApp: Append to messages'',
                   ''        HostApp-->>User: '' @ [dquote] @ escape_text c 60 @ [dquote]] @
                  (if in_turn st then [''    end''] else []),
                in_turn := False\<rparr>)) \<and>
   (dict_get ev ''event_type'' JNull = JStr ''llm_response'' \<longrightarrow>
    render_event st (JDict ev) = Inr st' \<longrightarrow>
      count_list (lines st') ''    end'' =
      count_list (lines st) ''    end'' + (if in_turn st then 1 else 0)) \<and>
   (render_event st e = Inr st' \<longrightarrow>
      turn_number st' = turn_number st + (if is_kind ''user_input'' e then 1 else 0) \<and>
      in_turn st' = (is_kind ''user_input'' e \<or> \<not> is_kind ''llm_response'' e \<and> in_turn st)) \<and>
   (render_events st evs = Inr st' \<longrightarrow>
      turn_number st' = turn_number st + int (length (filter (is_kind ''user_input'') evs)) \<and>
      in_turn st' = open_after (in_turn st) evs) \<and>
   footer st =
     lines st @ (if in_turn st then [''    end''] else []) @
     ['''', ''    Note over HostApp: Session Ended'', ''```''] \<and>
   (map_of td ''events'' = Some (JList evs) \<longrightarrow>
    render_events (initial_state td) evs = Inr st' \<longrightarrow>
      diagram_lines (JDict td) =
        Inr (lines st' @ (if open_after False evs then [''    end''] else []) @
             ['''', ''    Note over HostApp: Session Ended'', ''```'']) \<and>
      generate_mermaid_diagram (JDict td) =
        Inr (join [newline]
               (lines st' @ (if open_after False evs then [''    end''] else []) @
                ['''', ''    Note over HostApp: Session Ended'', ''```'']))) \<and>
   (map_of td ''events'' = Some (JList evs) \<longrightarrow>
    render_events (initial_state td) evs = Inl x \<longrightarrow>
      generate_mermaid_diagram (JDict td) = Inl x) \<and>
   (map_of td ''events'' = Some (JList evs) \<longrightarrow>
    diagram_lines (JDict td) = Inr ls \<longrightarrow>
      count_list ls ''    rect rgb(200, 220, 255)'' =
        length (filter (is_kind ''user_input'') evs) \<and>
      count_list ls ''    end'' =
        closings False evs + (if open_after False evs then 1 else 0))"
proof (intro conjI impI)
  show "turn_number (initial_state td) = 0" and "\<not> in_turn (initial_state td)"
    and "lines (initial_state td) = header td"
    by (simp_all add: initial_state_def)
  show "render_events st [] = Inr st"
    and "render_events st (e # evs) =
     (case render_event st e of Inl x \<Rightarrow> Inl x | Inr st1 \<Rightarrow> render_events st1 evs)"
    by simp_all
  show "footer st =
     lines st @ (if in_turn st then [''    end''] else []) @
     ['''', ''    Note over HostApp: Session Ended'', ''```'']"
    by (simp add: footer_def)
next
  assume "dict_get ev ''event_type'' JNull = JStr ''user_input''"
    and "render_event st (JDict ev) = Inr st'"
  then show "count_list (lines st') ''    end'' = count_list (lines st) ''    end''"
    by (rule user_input_closes_nothing)
next
  assume "dict_get ev ''event_type'' JNull = JStr ''llm_response''"
    and "render_event st (JDict ev) = Inr st'"
  then show "count_list (lines st') ''    end'' =
             count_list (lines st) ''    end'' + (if in_turn st then 1 else 0)"
    by (rule llm_response_closes_open_turn)
next
  assume r: "render_events st evs = Inr st'"
  then show "turn_number st' = turn_number st + int (length (filter (is_kind ''user_input'') evs))"
    by (rule render_events_turn_number)
  from r show "in_turn st' = open_after (in_turn st) evs"
    by (rule render_events_open_after)
next
  assume r: "render_event st e = Inr st'"
  from render_event_turn_state [OF r]
  show "turn_number st' = turn_number st + (if is_kind ''user_input'' e then 1 else 0)"
    and "in_turn st' = (is_kind ''user_input'' e \<or> \<not> is_kind ''llm_response'' e \<and> in_turn st)"
    by simp_all
next
  assume m: "map_of td ''events'' = Some (JList evs)"
    and r: "render_events (initial_state td) evs = Inr st'"
  show d: "diagram_lines (JDict td) =
        Inr (lines st' @ (if open_after False evs then [''    end''] else []) @
             ['''', ''    Note over HostApp: Session Ended'', ''```''])"
    unfolding diagram_lines_walk [OF m] r by simp
  show "generate_mermaid_diagram (JDict td) =
        Inr (join [newline]
               (lines st' @ (if open_after False evs then [''    end''] else []) @
                ['''', ''    Note over HostApp: Session Ended'', ''```'']))"
    unfolding generate_mermaid_diagram_def d by simp
next
  assume m: "map_of td ''events'' = Some (JList evs)"
    and r: "render_events (initial_state td) evs = Inl x"
  show "generate_mermaid_diagram (JDict td) = Inl x"
    unfolding generate_mermaid_diagram_def diagram_lines_walk [OF m] r by simp
next
  assume m: "map_of td ''events'' = Some (JList evs)"
    and d: "diagram_lines (JDict td) = Inr ls"
  from diagram_lines_counts [OF m d]
  show "count_list ls ''    rect rgb(200, 220, 255)'' =
        length (filter (is_kind ''user_input'') evs)"
    and "count_list ls ''    end'' =
        closings False evs + (if open_after False evs then 1 else 0)"
    by simp_all
qed (simp_all add: user_input_step llm_response_step)

theorem render_walk_open_turn_state_witness:
  "diagram_lines
     (JDict [(''session_id'', JStr ''s1''),
             (''events'', JList
                [JDict [(''event_type'', JStr ''user_input''), (''content'', JStr ''hi'')],
                 JDict [(''event_type'', JStr ''user_input''), (''content'', JStr ''again'')]])]) =
   Inr (header [(''session_id'', JStr ''s1''),
             (''events'', JList
                [JDict [(''event_type'', JStr ''user_input''), (''content'', JStr ''hi'')],
                 JDict [(''event_type'', JStr ''user_input''), (''content'', JStr ''again'')]])] @
        ['''',
         ''    rect rgb(200, 220, 255)'',
         ''        Note over User,MemorySystem: Turn 1: User Input'',
         '''',
         ''        User->>HostApp: '' @ [dquote] @ ''hi'' @ [dquote],
         ''        HostApp->>HostApp: Append to messages'',
         '''',
         ''    rect rgb(200, 220, 255)'',
         ''        Note over User,MemorySystem: Turn 2: User Input'',
         '''',
         ''        User->>HostApp: '' @ [dquote] @ ''again'' @ [dquote],
         ''        HostApp->>HostApp: Append to messages'',
         ''    end'',
         '''',
         ''    Note over HostApp: Session Ended'',
         ''```''])"
proof -
  let ?evs = "[JDict [(''event_type'', JStr ''user_input''), (''content'', JStr ''hi'')],
               JDict [(''event_type'', JStr ''user_input''), (''content'', JStr ''again'')]]"
  let ?td = "[(''session_id'', JStr ''s1''), (''events'', JList ?evs)]"
  let ?body = "['''',
           ''    rect rgb(200, 220, 255)'',
           ''        Note over User,MemorySystem: Turn 1: User Input'',
           '''',
           ''        User->>HostApp: '' @ [dquote] @ ''hi'' @ [dquote],
           ''        HostApp->>HostApp: Append to messages'',
           '''',
           ''    rect rgb(200, 220, 255)'',
           ''        Note over User,MemorySystem: Turn 2: User Input'',
           '''',
           ''        User->>HostApp: '' @ [dquote] @ ''again'' @ [dquote],
           ''        HostApp->>HostApp: Append to messages'']"
  let ?st = "\<lparr>lines = header ?td @ ?body, turn_number = 2, in_turn = True\<rparr>"
  have m: "map_of ?td ''events'' = Some (JList ?evs)"
    by simp
  have r: "render_events (initial_state ?td) ?evs = Inr ?st"
    unfolding initial_state_def by (rule two_user_inputs_walk)
  have o: "open_after False ?evs = True"
    by (simp add: is_kind_def dict_get_def)
  have l: "lines ?st = header ?td @ ?body"
    by (rule render_state.select_convs)
  note c = render_walk_open_turn_state
    [where td = "?td" and evs = "?evs" and st' = "?st",
     THEN conjunct2, THEN conjunct2, THEN conjunct2, THEN conjunct2, THEN conjunct2,
     THEN conjunct2, THEN conjunct2, THEN conjunct2, THEN conjunct2, THEN conjunct2,
     THEN conjunct2, THEN conjunct2, THEN conjunct1, rule_format, OF m r, THEN conjunct1]
  have "diagram_lines (JDict ?td) =
        Inr (lines ?st @ (if open_after False ?evs then [''    end''] else []) @
             ['''', ''    Note over HostApp: Session Ended'', ''```''])"
    by (rule c)
  then show ?thesis
    unfolding o l if_True by (simp only: append_assoc append_Cons append_Nil)
qed

text \<open>
  C5, as stated, fails on the \<open>command\<close> of a \<open>tool_call\<close> event: it is written into two
  lines of the diagram as it is, with its double quotes and its line break, while the
  shared primitive would have rewritten both.
\<close>

theorem tool_call_command_unescaped_counterexample:
  "render_event \<lparr>lines = [], turn_number = 1, in_turn = True\<rparr>
     (JDict [(''event_type'', JStr ''tool_call''), (''tool_name'', JStr ''memory''),
             (''command'', JStr (''say '' @ [dquote] @ ''hi'' @ [dquote, newline] @ ''now'')),
             (''parameters'', JDict [])]) =
   Inr \<lparr>lines =
          ['''',
           ''        Note over LLM: Decides to say '' @ [dquote] @ ''hi'' @ [dquote, newline] @ ''now'',
           ''        LLM->>MemorySystem: say '' @ [dquote] @ ''hi'' @ [dquote, newline] @ ''now()'',
           ''        activate MemorySystem''],
        turn_number = 1, in_turn = True\<rparr> \<and>
   escape_text (''say '' @ [dquote] @ ''hi'' @ [dquote, newline] @ ''now'') 50 =
     ''say '' @ [squote] @ ''hi'' @ [squote] @ ''<br/>now''"
  by (simp add: render_event_def dict_get_def params_str_def py_str_def escape_text_def
        replace_newlines_def replace_dquotes_def newline_def dquote_def squote_def)

text \<open>
  C5, amended. The text payloads of \<open>user_input\<close> (budget 50), \<open>llm_response\<close> (60),
  \<open>error\<close> (40) and of the memory tool's \<open>tool_result\<close> (40, the result text or the error
  text) are rendered through the one primitive \<open>escape_text\<close>. Its result holds no
  line break and no double quote (line breaks became \<open><br/>\<close>, double quotes single
  quotes); a text longer than the budget comes out as the first \<open>budget\<close> characters
  of the rewritten text followed by three dots, and a rewritten text within the
  budget comes out whole. In particular an \<open>error\<close> event whose message is longer than
  40 characters shows 40 characters and the dots.
\<close>

theorem escape_text_shared_primitive:
  "newline \<notin> set (escape_text t n) \<and> dquote \<notin> set (escape_text t n) \<and>
   length t \<le> length (replace_dquotes (replace_newlines t)) \<and>
   (0 \<le> n \<longrightarrow> n < int (length (replace_dquotes (replace_newlines t))) \<longrightarrow>
      escape_text t n = take (nat n) (replace_dquotes (replace_newlines t)) @ ''...'') \<and>
   (0 \<le> n \<longrightarrow> int (length (escape_text t n)) \<le> n + 3) \<and>
   (int (length (replace_dquotes (replace_newlines t))) \<le> n \<longrightarrow>
      escape_text t n = replace_dquotes (replace_newlines t)) \<and>
   (dict_get ev ''event_type'' JNull = JStr ''user_input'' \<longrightarrow>
    dict_get ev ''content'' (JStr []) = JStr t \<longrightarrow>
      render_event st (JDict ev) =
        Inr (st\<lparr>turn_number := turn_number st + 1,
                lines := lines st @
                  ['''',
                   ''    rect rgb(200, 220, 255)'',
                   ''        Note over User,MemorySystem: Turn '' @
                     str_int (turn_number st + 1) @ '': User Input'',
                   '''',
                   ''        User->>HostApp: '' @ [dquote] @ escape_text t 50 @ [dquote],
                   ''        HostApp->>HostApp: Append to messages''],
                in_turn := True\<rparr>)) \<and>
   (dict_get ev ''event_type'' JNull = JStr ''llm_response'' \<longrightarrow>
    dict_get ev ''content'' (JStr []) = JStr t \<longrightarrow>
      render_event st (JDict ev) =
        Inr (st\<lparr>lines := lines st @
                  ['''',
                   ''        Note over LLM: Ready to respond'',
                   ''        LLM-->>HostApp: '' @ [dquote] @ escape_text t 60 @ [dquote],
                   ''        HostApp->>HostApp: Append to messages'',
                   ''        HostApp-->>User: '' @ [dquote] @ escape_text t 60 @ [dquote]] @
                  (if in_turn st then [''    end''] else []),
                in_turn := False\<rparr>)) \<and>
   (dict_get ev ''event_type'' JNull = JStr ''tool_result'' \<longrightarrow>
    dict_get ev ''tool_name'' (JStr []) = JStr ''memory'' \<longrightarrow>
    truthy (dict_get ev ''success'' (JBool True)) \<longrightarrow>
    dict_get ev ''result'' (JStr []) = JStr t \<longrightarrow>
      render_event st (JDict ev) =
        Inr (st\<lparr>lines := lines st @
               [''        MemorySystem-->>LLM: '' @ escape_text t 40,
                ''        deactivate MemorySystem'']\<rparr>)) \<and>
   (dict_get ev ''event_type'' JNull = JStr ''tool_result'' \<longrightarrow>
    dict_get ev ''tool_name'' (JStr []) = JStr ''memory'' \<longrightarrow>
    \<not> truthy (dict_get ev ''success'' (JBool True)) \<longrightarrow>
    dict_get ev ''error'' JNull = JStr t \<longrightarrow> t \<noteq> [] \<longrightarrow>
      render_event st (JDict ev) =
        Inr (st\<lparr>lines := lines st @
               [''        MemorySystem-->>LLM: ERROR: '' @ escape_text t 40,
                ''        deactivate MemorySystem'']\<rparr>)) \<and>
   (dict_get ev ''event_type'' JNull = JStr ''error'' \<longrightarrow>
    dict_get ev ''message'' (JStr ''Unknown error'') = JStr t \<longrightarrow>
      render_event st (JDict ev) =
        Inr (st\<lparr>lines := lines st @
               [''    Note over HostApp: ERROR: '' @ escape_text t 40]\<rparr>))"
proof (intro conjI impI)
  show "newline \<notin> set (escape_text t n)" and "dquote \<notin> set (escape_text t n)"
    using escape_text_clean [of t n] by simp_all
qed (simp_all add: length_escaped escape_text_long escape_text_short length_escape_text
       user_input_step llm_response_step tool_result_success_step
       tool_result_error_text_step error_step)

theorem escape_text_shared_primitive_witness:
  "render_event \<lparr>lines = [], turn_number = 1, in_turn = True\<rparr>
     (JDict [(''event_type'', JStr ''error''), (''error_type'', JStr ''APIError''),
             (''message'', JStr (''connection reset by peer while streaming '' @ [dquote] @ ''x'' @ [dquote]))]) =
   Inr \<lparr>lines = [''    Note over HostApp: ERROR: connection reset by peer while streaming...''],
        turn_number = 1, in_turn = True\<rparr>"
proof -
  let ?t = "''connection reset by peer while streaming '' @ [dquote] @ ''x'' @ [dquote]"
  let ?ev = "[(''event_type'', JStr ''error''), (''error_type'', JStr ''APIError''),
              (''message'', JStr ?t)]"
  let ?st = "\<lparr>lines = [], turn_number = 1, in_turn = True\<rparr>"
  have h1: "dict_get ?ev ''event_type'' JNull = JStr ''error''"
    by (simp add: dict_get_def)
  have h2: "dict_get ?ev ''message'' (JStr ''Unknown error'') = JStr ?t"
    by (simp add: dict_get_def)
  have e: "escape_text ?t 40 = ''connection reset by peer while streaming...''"
    by (simp add: escape_text_def replace_newlines_def replace_dquotes_def newline_def
          dquote_def squote_def slice_to_def)
  from escape_text_shared_primitive [where ev = "?ev" and t = "?t" and n = 40 and st = "?st"] h1 h2
  have "render_event ?st (JDict ?ev) =
        Inr (?st\<lparr>lines := lines ?st @ [''    Note over HostApp: ERROR: '' @ escape_text ?t 40]\<rparr>)"
    by blast
  then show ?thesis
    unfolding e by simp
qed

text \<open>
  C6, as stated, fails on a \<open>tool_call\<close> event of a tool other than \<open>memory\<close>: the walk
  emits nothing for it.
\<close>

theorem tool_call_other_tool_counterexample:
  "render_event \<lparr>lines = [], turn_number = 1, in_turn = True\<rparr>
     (JDict [(''event_type'', JStr ''tool_call''), (''tool_name'', JStr ''search''),
             (''command'', JStr ''find''), (''parameters'', JDict [(''query'', JStr ''notes'')])]) =
   Inr \<lparr>lines = [], turn_number = 1, in_turn = True\<rparr>"
  by (simp add: render_event_def dict_get_def)

text \<open>
  C6, amended. For every \<open>tool_call\<close> event whose \<open>tool_name\<close> is \<open>memory\<close>, the walk emits a
  call annotation with the command and the parameters: each rendered as \<open>key=value\<close>
  with the value's \<^verbatim>\<open>repr\<close> cut at 30 characters, in the order of the mapping, joined
  with a comma and a space, and the whole list cut at 50 characters with three dots
  (at most 53 characters). A \<open>tool_result\<close> event of the \<open>memory\<close> tool emits a return
  annotation: the result text through \<open>escape_text\<close> with budget 40 when \<open>success\<close> is
  true, and otherwise \<open>ERROR:\<close> followed by the error text through the same primitive,
  or by \<open>Error\<close> when there is no error text. Events of any other tool emit nothing.
\<close>

theorem memory_tool_annotations:
  "(dict_get ev ''event_type'' JNull = JStr ''tool_call'' \<longrightarrow>
    dict_get ev ''tool_name'' (JStr []) = JStr ''memory'' \<longrightarrow>
    dict_get ev ''parameters'' (JDict []) = JDict ps \<longrightarrow>
      render_event st (JDict ev) =
        Inr (st\<lparr>lines := lines st @
               ['''',
                ''        Note over LLM: Decides to '' @ py_str (dict_get ev ''command'' (JStr [])),
                ''        LLM->>MemorySystem: '' @ py_str (dict_get ev ''command'' (JStr [])) @
                  ''('' @ abbreviated 50 (join '', '' (map key_value ps)) @ '')'',
                ''        activate MemorySystem'']\<rparr>)) \<and>
   length (abbreviated 50 (join '', '' (map key_value ps))) \<le> 53 \<and>
   (dict_get ev ''event_type'' JNull = JStr ''tool_result'' \<longrightarrow>
    dict_get ev ''tool_name'' (JStr []) = JStr ''memory'' \<longrightarrow>
    truthy (dict_get ev ''success'' (JBool True)) \<longrightarrow>
    dict_get ev ''result'' (JStr []) = JStr t \<longrightarrow>
      render_event st (JDict ev) =
        Inr (st\<lparr>lines := lines st @
               [''        MemorySystem-->>LLM: '' @ escape_text t 40,
                ''        deactivate MemorySystem'']\<rparr>)) \<and>
   (dict_get ev ''event_type'' JNull = JStr ''tool_result'' \<longrightarrow>
    dict_get ev ''tool_name'' (JStr []) = JStr ''memory'' \<longrightarrow>
    \<not> truthy (dict_get ev ''success'' (JBool True)) \<longrightarrow>
    dict_get ev ''error'' JNull = JStr t \<longrightarrow> t \<noteq> [] \<longrightarrow>
      render_event st (JDict ev) =
        Inr (st\<lparr>lines := lines st @
               [''        MemorySystem-->>LLM: ERROR: '' @ escape_text t 40,
                ''        deactivate MemorySystem'']\<rparr>)) \<and>
   (dict_get ev ''event_type'' JNull = JStr ''tool_result'' \<longrightarrow>
    dict_get ev ''tool_name'' (JStr []) = JStr ''memory'' \<longrightarrow>
    \<not> truthy (dict_get ev ''success'' (JBool True)) \<longrightarrow>
    \<not> truthy (dict_get ev ''error'' JNull) \<longrightarrow>
      render_event st (JDict ev) =
        Inr (st\<lparr>lines := lines st @
               [''        MemorySystem-->>LLM: ERROR: Error'',
                ''        deactivate MemorySystem'']\<rparr>)) \<and>
   ((dict_get ev ''event_type'' JNull = JStr ''tool_call'' \<or>
     dict_get ev ''event_type'' JNull = JStr ''tool_result'') \<longrightarrow>
    dict_get ev ''tool_name'' (JStr []) \<noteq> JStr ''memory'' \<longrightarrow>
      render_event st (JDict ev) = Inr st)"
proof (intro conjI impI)
  show "length (abbreviated 50 (join '', '' (map key_value ps))) \<le> 53"
    using length_abbreviated [of 50] by simp
next
  assume "dict_get ev ''event_type'' JNull = JStr ''tool_call'' \<or>
          dict_get ev ''event_type'' JNull = JStr ''tool_result''"
    and "dict_get ev ''tool_name'' (JStr []) \<noteq> JStr ''memory''"
  then show "render_event st (JDict ev) = Inr st"
    by (rule other_tool_step)
qed (simp_all add: tool_call_step tool_result_success_step tool_result_error_text_step
       tool_result_no_error_text_step)

theorem memory_tool_annotations_witness:
  "render_event \<lparr>lines = [], turn_number = 1, in_turn = True\<rparr>
     (JDict [(''event_type'', JStr ''tool_call''), (''tool_name'', JStr ''memory''),
             (''command'', JStr ''view''), (''parameters'', JDict [(''path'', JStr ''/memories'')])]) =
   Inr \<lparr>lines =
          ['''',
           ''        Note over LLM: Decides to view'',
           ''        LLM->>MemorySystem: view(path='' @ [squote] @ ''/memories'' @ [squote] @ '')'',
           ''        activate MemorySystem''],
        turn_number = 1, in_turn = True\<rparr> \<and>
   render_event \<lparr>lines = [], turn_number = 1, in_turn = True\<rparr>
     (JDict [(''event_type'', JStr ''tool_result''), (''tool_name'', JStr ''memory''),
             (''command'', JStr ''view''), (''success'', JBool True),
             (''result'', JStr ''<file list>'')]) =
   Inr \<lparr>lines =
          [''        MemorySystem-->>LLM: <file list>'',
           ''        deactivate MemorySystem''],
        turn_number = 1, in_turn = True\<rparr>"
proof -
  let ?ps = "[(''path'', JStr ''/memories'')]"
  let ?call = "[(''event_type'', JStr ''tool_call''), (''tool_name'', JStr ''memory''),
                (''command'', JStr ''view''), (''parameters'', JDict ?ps)]"
  let ?res = "[(''event_type'', JStr ''tool_result''), (''tool_name'', JStr ''memory''),
               (''command'', JStr ''view''), (''success'', JBool True),
               (''result'', JStr ''<file list>'')]"
  let ?st = "\<lparr>lines = [], turn_number = 1, in_turn = True\<rparr>"
  have c1: "dict_get ?call ''event_type'' JNull = JStr ''tool_call''"
    and c2: "dict_get ?call ''tool_name'' (JStr []) = JStr ''memory''"
    and c3: "dict_get ?call ''parameters'' (JDict []) = JDict ?ps"
    and c4: "py_str (dict_get ?call ''command'' (JStr [])) = ''view''"
    by (simp_all add: dict_get_def py_str_def)
  have r1: "dict_get ?res ''event_type'' JNull = JStr ''tool_result''"
    and r2: "dict_get ?res ''tool_name'' (JStr []) = JStr ''memory''"
    and r3: "truthy (dict_get ?res ''success'' (JBool True))"
    and r4: "dict_get ?res ''result'' (JStr []) = JStr ''<file list>''"
    by (simp_all add: dict_get_def)
  have p: "abbreviated 50 (join '', '' (map key_value ?ps)) =
           ''path='' @ [squote] @ ''/memories'' @ [squote]"
    by (simp add: abbreviated_def key_value_def repr_str_def repr_char_def printable_def
          squote_def dquote_def backslash_def newline_def Let_def)
  have e: "escape_text ''<file list>'' 40 = ''<file list>''"
    by (simp add: escape_text_def replace_newlines_def replace_dquotes_def newline_def
          dquote_def squote_def)
  from memory_tool_annotations [where ev = "?call" and ps = "?ps" and st = "?st"] c1 c2 c3
  have a: "render_event ?st (JDict ?call) =
        Inr (?st\<lparr>lines := lines ?st @
               ['''',
                ''        Note over LLM: Decides to '' @ py_str (dict_get ?call ''command'' (JStr [])),
                ''        LLM->>MemorySystem: '' @ py_str (dict_get ?call ''command'' (JStr [])) @
                  ''('' @ abbreviated 50 (join '', '' (map key_value ?ps)) @ '')'',
                ''        activate MemorySystem'']\<rparr>)"
    by blast
  from memory_tool_annotations [where ev = "?res" and t = "''<file list>''" and st = "?st"] r1 r2 r3 r4
  have b: "render_event ?st (JDict ?res) =
        Inr (?st\<lparr>lines := lines ?st @
               [''        MemorySystem-->>LLM: '' @ escape_text ''<file list>'' 40,
                ''        deactivate MemorySystem'']\<rparr>)"
    by blast
  show ?thesis
    unfolding a b c4 p e by simp
qed

text \<open>
  C7, as stated, fails on a session record without \<open>session_id\<close> and without \<open>events\<close>:
  the script renders it, under the identifier \<open>unknown\<close> and with an empty body, and
  saves the diagram.
\<close>

theorem missing_fields_rendered_counterexample:
  "main ''./trace.json'' None (Parsed (JDict [(''model'', JStr ''m'')])) None =
     Saved ''diagrams/sequence_unknown.md''
       (join [newline]
          [''---'',
           ''Session ID: unknown'',
           ''Start Time: unknown'',
           ''Model: m'',
           ''---'',
           '''',
           ''```mermaid'',
           ''sequenceDiagram'',
           ''    participant User'',
           ''    participant HostApp as Host App<br/>(chat.py)'',
           ''    participant LLM as Claude LLM'',
           ''    participant MemorySystem as Memory System<br/>(memory_tool)'',
           '''',
           ''    Note over HostApp: Session Started'',
           '''',
           ''    Note over HostApp: Session Ended'',
           ''```''])"
  by (simp add: main_def generate_mermaid_diagram_def diagram_lines_def dict_get_def
        py_iter_def initial_state_def footer_def header_def py_str_def path_str_def)

text \<open>
  C7, amended. Of the replay inputs that are not a valid session record, the script
  answers with a descriptive error and the return value 1 to a missing file and to
  text that is not valid JSON. A file whose opening or reading raises anything else
  (a directory, a file that may not be read, bytes that are not UTF-8) ends the
  script with that exception uncaught, and a parsed value that is not a JSON object
  ends it with the renderer's \<^verbatim>\<open>AttributeError\<close>; nothing is rendered in either case. A
  parsed record that lacks aggregate fields is not rejected: a missing \<open>session_id\<close>,
  \<open>start_time\<close> or \<open>model\<close> is rendered as \<open>unknown\<close>, a record without \<open>events\<close> is rendered
  as the empty log, header and footer only, and the diagram is saved.
\<close>

theorem replay_input_handling:
  "main arg out Not_found w = Exit_1 (''Error: Trace file not found: '' @ path_str arg) \<and>
   main arg out (Invalid_json msg) w = Exit_1 (''Error: Invalid JSON in trace file: '' @ msg) \<and>
   main arg out (Read_raises name) w = Uncaught name \<and>
   ((case v of JDict d \<Rightarrow> False | _ \<Rightarrow> True) \<longrightarrow>
      generate_mermaid_diagram v = Inl AttributeError \<and>
      main arg out (Parsed v) w = Uncaught ''AttributeError'') \<and>
   (map_of td ''events'' = None \<longrightarrow>
      diagram_lines (JDict td) =
        Inr (header td @ ['''', ''    Note over HostApp: Session Ended'', ''```'']) \<and>
      main arg None (Parsed (JDict td)) None =
        Saved (path_str (''./diagrams/sequence_'' @
                 py_str (dict_get td ''session_id'' (JStr ''unknown'')) @ ''.md''))
              (join [newline]
                 (header td @ ['''', ''    Note over HostApp: Session Ended'', ''```'']))) \<and>
   (map_of td ''session_id'' = None \<longrightarrow>
      header td ! 1 = ''Session ID: unknown'' \<and>
      dict_get td ''session_id'' (JStr ''unknown'') = JStr ''unknown'') \<and>
   (map_of td ''start_time'' = None \<longrightarrow> header td ! 2 = ''Start Time: unknown'') \<and>
   (map_of td ''model'' = None \<longrightarrow> header td ! 3 = ''Model: unknown'')"
proof (intro conjI impI)
  assume "case v of JDict d \<Rightarrow> False | _ \<Rightarrow> True"
  then show "generate_mermaid_diagram v = Inl AttributeError"
    and "main arg out (Parsed v) w = Uncaught ''AttributeError''"
    by (simp_all add: generate_not_dict main_def error_name_def)
next
  assume e: "map_of td ''events'' = None"
  then show d: "diagram_lines (JDict td) =
        Inr (header td @ ['''', ''    Note over HostApp: Session Ended'', ''```''])"
    by (rule diagram_lines_no_events)
  show "main arg None (Parsed (JDict td)) None =
        Saved (path_str (''./diagrams/sequence_'' @
                 py_str (dict_get td ''session_id'' (JStr ''unknown'')) @ ''.md''))
              (join [newline]
                 (header td @ ['''', ''    Note over HostApp: Session Ended'', ''```'']))"
    by (simp add: main_def generate_mermaid_diagram_def d del: join.simps)
qed (simp_all add: main_def header_def dict_get_def py_str_def)

theorem replay_input_handling_witness:
  "main ''./missing.json'' None Not_found None =
     Exit_1 ''Error: Trace file not found: missing.json'' \<and>
   main ''trace.json'' None (Parsed (JList [])) None = Uncaught ''AttributeError'' \<and>
   diagram_lines (JDict []) =
     Inr (header [] @ ['''', ''    Note over HostApp: Session Ended'', ''```'']) \<and>
   main ''trace.json'' None (Parsed (JDict [])) None =
     Saved ''diagrams/sequence_unknown.md''
       (join [newline] (header [] @ ['''', ''    Note over HostApp: Session Ended'', ''```''])) \<and>
   header [] ! 1 = ''Session ID: unknown''"
proof -
  have p: "path_str ''./missing.json'' = ''missing.json''"
    and q: "path_str (''./diagrams/sequence_'' @ py_str (JStr ''unknown'') @ ''.md'') =
            ''diagrams/sequence_unknown.md''"
    by (simp_all add: path_str_def py_str_def)
  have a: "main ''./missing.json'' None Not_found None =
           Exit_1 (''Error: Trace file not found: '' @ path_str ''./missing.json'')"
    using replay_input_handling [where arg = "''./missing.json''" and out = None and w = None]
    by blast
  have n: "case JList [] of JDict d \<Rightarrow> False | _ \<Rightarrow> True"
    and e: "map_of [] ''events'' = (None :: json option)"
    and i: "map_of [] ''session_id'' = (None :: json option)"
    by simp_all
  from replay_input_handling
         [where v = "JList []" and td = "[]" and arg = "''trace.json''" and out = None
            and w = None] n e i
  have b: "main ''trace.json'' None (Parsed (JList [])) None = Uncaught ''AttributeError''"
    and c: "diagram_lines (JDict []) =
            Inr (header [] @ ['''', ''    Note over HostApp: Session Ended'', ''```''])"
    and d: "main ''trace.json'' None (Parsed (JDict [])) None =
        Saved (path_str (''./diagrams/sequence_'' @
                 py_str (dict_get [] ''session_id'' (JStr ''unknown'')) @ ''.md''))
              (join [newline]
                 (header [] @ ['''', ''    Note over HostApp: Session Ended'', ''```'']))"
    and h: "header [] ! 1 = ''Session ID: unknown''"
    and g: "dict_get [] ''session_id'' (JStr ''unknown'') = JStr ''unknown''"
    by blast+
  from a b c d h show ?thesis
    unfolding g p q by simp
qed

text \<open>
  C10. An event whose \<open>event_type\<close> is none of \<open>user_input\<close>, \<open>llm_request\<close>, \<open>tool_call\<close>,
  \<open>tool_result\<close>, \<open>llm_response\<close>, \<open>error\<close> (a \<open>token_usage\<close> event, an unknown kind, an
  event without the field) emits no line and leaves the turn counter and the
  open-turn state as they are; the diagram of a log equals the diagram of the log with
  those events removed.
\<close>

theorem unrendered_events_invisible:
  "(unrendered e \<longrightarrow> render_event st e = Inr st) \<and>
   (map_of td ''events'' = Some (JList evs) \<longrightarrow>
    map_of td' ''events'' = Some (JList (filter (\<lambda>e. \<not> unrendered e) evs)) \<longrightarrow>
    (\<forall>k. k \<noteq> ''events'' \<longrightarrow> map_of td' k = map_of td k) \<longrightarrow>
    generate_mermaid_diagram (JDict td') = generate_mermaid_diagram (JDict td))"
proof (intro conjI impI)
  assume "unrendered e"
  then show "render_event st e = Inr st" by (rule unrendered_skip)
next
  assume a: "map_of td ''events'' = Some (JList evs)"
    and b: "map_of td' ''events'' = Some (JList (filter (\<lambda>e. \<not> unrendered e) evs))"
    and c: "\<forall>k. k \<noteq> ''events'' \<longrightarrow> map_of td' k = map_of td k"
  from c have h: "header td' = header td"
    by (intro header_cong) simp_all
  have "diagram_lines (JDict td') = diagram_lines (JDict td)"
  proof (rule diagram_lines_cong [OF h])
    show "py_iter (dict_get td' ''events'' (JList [])) = Inr (filter (\<lambda>e. \<not> unrendered e) evs)"
      using b by (simp add: dict_get_def py_iter_def)
    show "py_iter (dict_get td ''events'' (JList [])) = Inr evs"
      using a by (simp add: dict_get_def py_iter_def)
    show "render_events (initial_state td) (filter (\<lambda>e. \<not> unrendered e) evs) =
          render_events (initial_state td) evs"
      by (rule render_events_filter)
  qed
  then show "generate_mermaid_diagram (JDict td') = generate_mermaid_diagram (JDict td)"
    by (simp add: generate_mermaid_diagram_def)
qed

theorem unrendered_events_invisible_witness:
  "unrendered (JDict [(''event_type'', JStr ''token_usage''), (''input_tokens'', JInt 7)]) \<and>
   render_event \<lparr>lines = [], turn_number = 1, in_turn = True\<rparr>
     (JDict [(''event_type'', JStr ''token_usage''), (''input_tokens'', JInt 7)]) =
     Inr \<lparr>lines = [], turn_number = 1, in_turn = True\<rparr> \<and>
   generate_mermaid_diagram
     (JDict [(''session_id'', JStr ''s1''),
             (''events'', JList [JDict [(''event_type'', JStr ''user_input''), (''content'', JStr ''hi'')]])]) =
   generate_mermaid_diagram
     (JDict [(''session_id'', JStr ''s1''),
             (''events'', JList [JDict [(''event_type'', JStr ''token_usage''), (''input_tokens'', JInt 7)],
                                 JDict [(''event_type'', JStr ''user_input''), (''content'', JStr ''hi'')],
                                 JDict [(''kind'', JStr ''no type'')]])])"
proof -
  have u: "unrendered (JDict [(''event_type'', JStr ''token_usage''), (''input_tokens'', JInt 7)])"
    by (simp add: unrendered_def dict_get_def rendered_kinds_def)
  have f: "filter (\<lambda>e. \<not> unrendered e)
             [JDict [(''event_type'', JStr ''token_usage''), (''input_tokens'', JInt 7)],
              JDict [(''event_type'', JStr ''user_input''), (''content'', JStr ''hi'')],
              JDict [(''kind'', JStr ''no type'')]] =
           [JDict [(''event_type'', JStr ''user_input''), (''content'', JStr ''hi'')]]"
    by (simp add: unrendered_def dict_get_def rendered_kinds_def)
  show ?thesis
    using u f unrendered_events_invisible
      [where e = "JDict [(''event_type'', JStr ''token_usage''), (''input_tokens'', JInt 7)]"
         and st = "\<lparr>lines = [], turn_number = 1, in_turn = True\<rparr>"
         and td = "[(''session_id'', JStr ''s1''),
             (''events'', JList [JDict [(''event_type'', JStr ''token_usage''), (''input_tokens'', JInt 7)],
                                 JDict [(''event_type'', JStr ''user_input''), (''content'', JStr ''hi'')],
                                 JDict [(''kind'', JStr ''no type'')]])]"
         and td' = "[(''session_id'', JStr ''s1''),
             (''events'', JList [JDict [(''event_type'', JStr ''user_input''), (''content'', JStr ''hi'')]])]"
         and evs = "[JDict [(''event_type'', JStr ''token_usage''), (''input_tokens'', JInt 7)],
                                 JDict [(''event_type'', JStr ''user_input''), (''content'', JStr ''hi'')],
                                 JDict [(''kind'', JStr ''no type'')]]"]
    by simp
qed

section \<open>Claims about the orchestrator\<close>

text \<open>
  C3, as stated, fails for an exception that is not an instance of \<^verbatim>\<open>Exception\<close>: the
  handler is \<^verbatim>\<open>except Exception\<close>, so a cancellation raised in the external call leaves
  the method with no \<open>error\<close> event in the log and no outward \<open>error\<close> event.
\<close>

theorem cancelled_call_no_error_event_counterexample:
  "send_message_streaming
     \<lparr>stream = [Content_block_delta (Some ''Hel'')], tool_events = [],
      outcome = Inl \<lparr>exn_type = ''CancelledError'', exn_message = '''',
                     is_exception = False\<rparr>\<rparr>
     ''hi''
     \<lparr>model = ''claude'', system_prompt = ''be brief'', messages = [],
      trace = new_trace ''s1'' ''claude'' ''be brief'',
      total_input_tokens = 10, total_output_tokens = 5,
      total_cache_read_tokens = 0, total_cache_write_tokens = 0\<rparr> =
   (([Out_text ''Hel''],
     Some \<lparr>exn_type = ''CancelledError'', exn_message = '''', is_exception = False\<rparr>),
    \<lparr>model = ''claude'', system_prompt = ''be brief'', messages = [(User, ''hi'')],
      trace = \<lparr>session_id = ''s1'', trace_model = ''claude'', trace_system_prompt = ''be brief'',
               events = [User_input ''hi'', Llm_request 1 [''memory'']],
               finalized = False\<rparr>,
      total_input_tokens = 10, total_output_tokens = 5,
      total_cache_read_tokens = 0, total_cache_write_tokens = 0\<rparr>)"
  by (simp add: send_message_streaming_def handle_exception_def Let_def log_user_input_def
        log_llm_request_def append_event_def new_trace_def)

text \<open>
  C3, amended. When the external call raises an exception of class \<^verbatim>\<open>Exception\<close>, the
  turn appends to the log, after the \<open>user_input\<close> and \<open>llm_request\<close> events and whatever
  the memory tool logged, one \<open>error\<close> event with the name of the exception's type and
  its message; what it yields ends with an \<open>error\<close> event carrying the message and holds
  no \<open>done\<close> event; nothing leaves the method; and the four cumulative counters are
  what they were before the turn. When the exception is of another class (a
  \<^verbatim>\<open>BaseException\<close> such as a cancellation), it leaves the method: no \<open>error\<close> event is
  logged, what was yielded holds neither an \<open>error\<close> nor a \<open>done\<close> event, and the counters
  are unchanged as well.
\<close>

theorem failed_call_error_event:
  "(outcome run = Inl e \<longrightarrow> is_exception e \<longrightarrow>
    send_message_streaming run msg m = ((outs, escaped), m') \<longrightarrow>
      events (trace m') =
        events (trace m) @
        [User_input msg, Llm_request (Suc (length (messages m))) [''memory'']] @
        tool_events run @ [Error_event (exn_type e) (exn_message e)] \<and>
      outs = fst (stream_loop (stream run)) @ [Out_error (exn_message e)] \<and>
      last outs = Out_error (exn_message e) \<and>
      \<not> list_ex is_done outs \<and>
      escaped = None \<and>
      totals m' = totals m) \<and>
   (outcome run = Inl e \<longrightarrow> \<not> is_exception e \<longrightarrow>
    send_message_streaming run msg m = ((outs, escaped), m') \<longrightarrow>
      events (trace m') =
        events (trace m) @
        [User_input msg, Llm_request (Suc (length (messages m))) [''memory'']] @
        tool_events run \<and>
      outs = fst (stream_loop (stream run)) \<and>
      \<not> list_ex is_error outs \<and>
      \<not> list_ex is_done outs \<and>
      escaped = Some e \<and>
      totals m' = totals m)"
proof (intro conjI impI)
  assume f: "outcome run = Inl e" and x: "is_exception e"
    and s: "send_message_streaming run msg m = ((outs, escaped), m')"
  from s have o: "outs = fst (stream_loop (stream run)) @ [Out_error (exn_message e)]"
    and n: "escaped = None"
    and m: "m' = m\<lparr>messages := messages m @ [(User, msg)],
        trace := (trace m)\<lparr>events := events (trace m) @
          [User_input msg, Llm_request (Suc (length (messages m))) [''memory'']] @
          tool_events run @ [Error_event (exn_type e) (exn_message e)]\<rparr>\<rparr>"
    unfolding send_message_streaming_failure [OF f x] by simp_all
  show "outs = fst (stream_loop (stream run)) @ [Out_error (exn_message e)]" by (rule o)
  show "escaped = None" by (rule n)
  show "last outs = Out_error (exn_message e)" unfolding o by simp
  show "\<not> list_ex is_done outs"
    using stream_loop_not_done [of "stream run"] unfolding o by simp
  show "events (trace m') =
        events (trace m) @
        [User_input msg, Llm_request (Suc (length (messages m))) [''memory'']] @
        tool_events run @ [Error_event (exn_type e) (exn_message e)]"
    unfolding m by simp
  show "totals m' = totals m" unfolding m by (simp add: totals_def)
next
  assume f: "outcome run = Inl e" and x: "\<not> is_exception e"
    and s: "send_message_streaming run msg m = ((outs, escaped), m')"
  from s have o: "outs = fst (stream_loop (stream run))"
    and n: "escaped = Some e"
    and m: "m' = m\<lparr>messages := messages m @ [(User, msg)],
        trace := (trace m)\<lparr>events := events (trace m) @
          [User_input msg, Llm_request (Suc (length (messages m))) [''memory'']] @
          tool_events run\<rparr>\<rparr>"
    unfolding send_message_streaming_escape [OF f x] by simp_all
  show "outs = fst (stream_loop (stream run))" by (rule o)
  show "escaped = Some e" by (rule n)
  show "\<not> list_ex is_error outs"
    using stream_loop_not_error [of "stream run"] unfolding o by simp
  show "\<not> list_ex is_done outs"
    using stream_loop_not_done [of "stream run"] unfolding o by simp
  show "events (trace m') =
        events (trace m) @
        [User_input msg, Llm_request (Suc (length (messages m))) [''memory'']] @
        tool_events run"
    unfolding m by simp
  show "totals m' = totals m" unfolding m by (simp add: totals_def)
qed

theorem failed_call_error_event_witness:
  "send_message_streaming
     \<lparr>stream = [Content_block_delta (Some ''Hel'')], tool_events = [],
      outcome = Inl \<lparr>exn_type = ''APIConnectionError'', exn_message = ''connection lost'',
                     is_exception = True\<rparr>\<rparr>
     ''hi''
     \<lparr>model = ''claude'', system_prompt = ''be brief'', messages = [],
      trace = new_trace ''s1'' ''claude'' ''be brief'',
      total_input_tokens = 10, total_output_tokens = 5,
      total_cache_read_tokens = 0, total_cache_write_tokens = 0\<rparr> =
   (([Out_text ''Hel'', Out_error ''connection lost''], None),
    \<lparr>model = ''claude'', system_prompt = ''be brief'', messages = [(User, ''hi'')],
      trace = \<lparr>session_id = ''s1'', trace_model = ''claude'', trace_system_prompt = ''be brief'',
               events = [User_input ''hi'', Llm_request 1 [''memory''],
                         Error_event ''APIConnectionError'' ''connection lost''],
               finalized = False\<rparr>,
      total_input_tokens = 10, total_output_tokens = 5,
      total_cache_read_tokens = 0, total_cache_write_tokens = 0\<rparr>) \<and>
   totals \<lparr>model = ''claude'', system_prompt = ''be brief'', messages = [(User, ''hi'')],
      trace = \<lparr>session_id = ''s1'', trace_model = ''claude'', trace_system_prompt = ''be brief'',
               events = [User_input ''hi'', Llm_request 1 [''memory''],
                         Error_event ''APIConnectionError'' ''connection lost''],
               finalized = False\<rparr>,
      total_input_tokens = 10, total_output_tokens = 5,
      total_cache_read_tokens = 0, total_cache_write_tokens = 0\<rparr> =
   totals \<lparr>model = ''claude'', system_prompt = ''be brief'', messages = [],
      trace = new_trace ''s1'' ''claude'' ''be brief'',
      total_input_tokens = 10, total_output_tokens = 5,
      total_cache_read_tokens = 0, total_cache_write_tokens = 0\<rparr> \<and>
   totals \<lparr>model = ''claude'', system_prompt = ''be brief'', messages = [(User, ''hi'')],
      trace = \<lparr>session_id = ''s1'', trace_model = ''claude'', trace_system_prompt = ''be brief'',
               events = [User_input ''hi'', Llm_request 1 [''memory'']],
               finalized = False\<rparr>,
      total_input_tokens = 10, total_output_tokens = 5,
      total_cache_read_tokens = 0, total_cache_write_tokens = 0\<rparr> =
   totals \<lparr>model = ''claude'', system_prompt = ''be brief'', messages = [],
      trace = new_trace ''s1'' ''claude'' ''be brief'',
      total_input_tokens = 10, total_output_tokens = 5,
      total_cache_read_tokens = 0, total_cache_write_tokens = 0\<rparr>"
proof -
  let ?e = "\<lparr>exn_type = ''APIConnectionError'', exn_message = ''connection lost'',
             is_exception = True\<rparr>"
  let ?c = "\<lparr>exn_type = ''CancelledError'', exn_message = '''', is_exception = False\<rparr>"
  let ?run = "\<lparr>stream = [Content_block_delta (Some ''Hel'')], tool_events = [],
               outcome = Inl ?e\<rparr>"
  let ?can = "\<lparr>stream = [Content_block_delta (Some ''Hel'')], tool_events = [],
               outcome = Inl ?c\<rparr>"
  let ?m = "\<lparr>model = ''claude'', system_prompt = ''be brief'', messages = [],
      trace = new_trace ''s1'' ''claude'' ''be brief'',
      total_input_tokens = 10, total_output_tokens = 5,
      total_cache_read_tokens = 0, total_cache_write_tokens = 0\<rparr>"
  let ?m' = "\<lparr>model = ''claude'', system_prompt = ''be brief'', messages = [(User, ''hi'')],
      trace = \<lparr>session_id = ''s1'', trace_model = ''claude'', trace_system_prompt = ''be brief'',
               events = [User_input ''hi'', Llm_request 1 [''memory''],
                         Error_event ''APIConnectionError'' ''connection lost''],
               finalized = False\<rparr>,
      total_input_tokens = 10, total_output_tokens = 5,
      total_cache_read_tokens = 0, total_cache_write_tokens = 0\<rparr>"
  let ?m'' = "\<lparr>model = ''claude'', system_prompt = ''be brief'', messages = [(User, ''hi'')],
      trace = \<lparr>session_id = ''s1'', trace_model = ''claude'', trace_system_prompt = ''be brief'',
               events = [User_input ''hi'', Llm_request 1 [''memory'']],
               finalized = False\<rparr>,
      total_input_tokens = 10, total_output_tokens = 5,
      total_cache_read_tokens = 0, total_cache_write_tokens = 0\<rparr>"
  have f: "outcome ?run = Inl ?e" and x: "is_exception ?e"
    and g: "outcome ?can = Inl ?c" and y: "\<not> is_exception ?c"
    by simp_all
  have s: "send_message_streaming ?run ''hi'' ?m =
           (([Out_text ''Hel'', Out_error ''connection lost''], None), ?m')"
    by (simp add: send_message_streaming_def handle_exception_def Let_def log_user_input_def
          log_llm_request_def log_error_def append_event_def new_trace_def)
  have c: "send_message_streaming ?can ''hi'' ?m =
           (([Out_text ''Hel''], Some ?c), ?m'')"
    by (simp add: send_message_streaming_def handle_exception_def Let_def log_user_input_def
          log_llm_request_def append_event_def new_trace_def)
  from failed_call_error_event
         [where run = "?run" and e = "?e" and msg = "''hi''" and m = "?m"
            and outs = "[Out_text ''Hel'', Out_error ''connection lost'']"
            and escaped = None and m' = "?m'"] f x s
  have a: "totals ?m' = totals ?m" by blast
  from failed_call_error_event
         [where run = "?can" and e = "?c" and msg = "''hi''" and m = "?m"
            and outs = "[Out_text ''Hel'']" and escaped = "Some ?c" and m' = "?m''"] g y c
  have b: "totals ?m'' = totals ?m" by blast
  from s a b show ?thesis by blast
qed

text \<open>
  C9, as stated, fails on any failed turn: the user's message is appended to the
  message history before the external call and stays there when the call raises.
\<close>

theorem failed_turn_history_changed_counterexample:
  "messages (init ''s1'' ''claude'' ''be brief'') = [] \<and>
   messages (snd (send_message_streaming
     \<lparr>stream = [], tool_events = [],
      outcome = Inl \<lparr>exn_type = ''APIConnectionError'', exn_message = ''connection lost'',
        is_exception = True\<rparr>\<rparr>
     ''hi'' (init ''s1'' ''claude'' ''be brief''))) = [(User, ''hi'')]"
  by (simp add: send_message_streaming_def handle_exception_def init_def Let_def)

text \<open>
  C9, amended. After a turn that fails because the external call raises, the message
  history is the history before the turn followed by the user's message, which is
  appended unconditionally before the call. The assistant's message is appended only
  once the final response text has been extracted, so a failed turn adds no assistant
  message and a successful one adds the user's message and the assistant's.
\<close>

theorem message_history_after_turn:
  "(outcome run = Inl e \<longrightarrow>
      messages (snd (send_message_streaming run msg m)) = messages m @ [(User, msg)]) \<and>
   (outcome run = Inr resp \<longrightarrow>
      messages (snd (send_message_streaming run msg m)) =
        messages m @ [(User, msg), (Assistant, final_text run resp)])"
  by (simp add: send_message_streaming_messages_failed send_message_streaming_messages_completed)

theorem message_history_after_turn_witness:
  "messages (snd (send_message_streaming
     \<lparr>stream = [Content_block_delta (Some ''Hel'')], tool_events = [],
      outcome = Inl \<lparr>exn_type = ''APIConnectionError'', exn_message = ''connection lost'',
        is_exception = True\<rparr>\<rparr>
     ''again''
     \<lparr>model = ''claude'', system_prompt = ''be brief'',
      messages = [(User, ''hi''), (Assistant, ''hello'')],
      trace = new_trace ''s1'' ''claude'' ''be brief'',
      total_input_tokens = 10, total_output_tokens = 5,
      total_cache_read_tokens = 0, total_cache_write_tokens = 0\<rparr>)) =
   [(User, ''hi''), (Assistant, ''hello''), (User, ''again'')] \<and>
   messages (snd (send_message_streaming
     \<lparr>stream = [Content_block_delta (Some ''su''), Content_block_delta (Some ''re'')],
      tool_events = [],
      outcome = Inr \<lparr>response_content = [None, Some ''sure''],
                     response_usage = \<lparr>usage_input_tokens = 3, usage_output_tokens = 2,
                       cache_read_input_tokens = None, cache_creation_input_tokens = None\<rparr>\<rparr>\<rparr>
     ''again''
     \<lparr>model = ''claude'', system_prompt = ''be brief'',
      messages = [(User, ''hi''), (Assistant, ''hello'')],
      trace = new_trace ''s1'' ''claude'' ''be brief'',
      total_input_tokens = 10, total_output_tokens = 5,
      total_cache_read_tokens = 0, total_cache_write_tokens = 0\<rparr>)) =
   [(User, ''hi''), (Assistant, ''hello''), (User, ''again''), (Assistant, ''sure'')]"
proof -
  let ?m = "\<lparr>model = ''claude'', system_prompt = ''be brief'',
      messages = [(User, ''hi''), (Assistant, ''hello'')],
      trace = new_trace ''s1'' ''claude'' ''be brief'',
      total_input_tokens = 10, total_output_tokens = 5,
      total_cache_read_tokens = 0, total_cache_write_tokens = 0\<rparr>"
  let ?e = "\<lparr>exn_type = ''APIConnectionError'', exn_message = ''connection lost'',
        is_exception = True\<rparr>"
  let ?bad = "\<lparr>stream = [Content_block_delta (Some ''Hel'')], tool_events = [],
      outcome = Inl ?e\<rparr>"
  let ?resp = "\<lparr>response_content = [None, Some ''sure''],
                response_usage = \<lparr>usage_input_tokens = 3, usage_output_tokens = 2,
                  cache_read_input_tokens = None, cache_creation_input_tokens = None\<rparr>\<rparr>"
  let ?good = "\<lparr>stream = [Content_block_delta (Some ''su''), Content_block_delta (Some ''re'')],
      tool_events = [], outcome = Inr ?resp\<rparr>"
  have t: "final_text ?good ?resp = ''sure''"
    by (simp add: final_text_def)
  from message_history_after_turn [where run = "?bad" and e = "?e" and msg = "''again''" and m = "?m"]
  have a: "messages (snd (send_message_streaming ?bad ''again'' ?m)) =
           [(User, ''hi''), (Assistant, ''hello''), (User, ''again'')]"
    by simp
  from message_history_after_turn
         [where run = "?good" and resp = "?resp" and msg = "''again''" and m = "?m"] t
  have b: "messages (snd (send_message_streaming ?good ''again'' ?m)) =
           [(User, ''hi''), (Assistant, ''hello''), (User, ''again''), (Assistant, ''sure'')]"
    by simp
  from a b show ?thesis by blast
qed

text \<open>
  C8, as stated, fails when finalizing the log raises: the error is surfaced, but the
  message history and the counters have been cleared by then, so the old state is not
  left untouched.
\<close>

theorem reset_not_atomic_counterexample:
  "clear_memories
     \<lparr>clear_all_memory = Inr ''All memory cleared'',
      finalize_io = Inl \<lparr>exn_type = ''OSError'', exn_message = ''No space left on device'',
        is_exception = True\<rparr>,
      new_sid = ''s2''\<rparr>
     (\<lparr>model = ''claude'', system_prompt = ''be brief'',
       messages = [(User, ''hi''), (Assistant, ''hello'')],
       trace = \<lparr>session_id = ''s1'', trace_model = ''claude'', trace_system_prompt = ''be brief'',
                events = [User_input ''hi''], finalized = False\<rparr>,
       total_input_tokens = 10, total_output_tokens = 5,
       total_cache_read_tokens = 0, total_cache_write_tokens = 0\<rparr>, []) =
   (Inl \<lparr>exn_type = ''OSError'', exn_message = ''No space left on device'',
        is_exception = True\<rparr>,
    \<lparr>model = ''claude'', system_prompt = ''be brief'',
       messages = [],
       trace = \<lparr>session_id = ''s1'', trace_model = ''claude'', trace_system_prompt = ''be brief'',
                events = [User_input ''hi''], finalized = False\<rparr>,
       total_input_tokens = 0, total_output_tokens = 0,
       total_cache_read_tokens = 0, total_cache_write_tokens = 0\<rparr>, [])"
  by (simp add: clear_memories_def trace_finalize_def Let_def)

text \<open>
  C8, amended. \<open>clear_memories\<close> first clears the memory store; if that raises, the
  error is surfaced and the message history, the counters, the Session and the
  storage are untouched. Otherwise it clears the message history and the four token
  counters, finalizes the current Session's log and starts a new Session with the
  same model and system prompt, and returns the memory tool's report. The reset is
  not atomic: when finalizing raises, the error is surfaced with the old Session
  still the current one and nothing written to the storage.
\<close>

theorem clear_memories_steps:
  "(clear_all_memory env = Inl e \<longrightarrow> clear_memories env (m, disk) = (Inl e, m, disk)) \<and>
   (clear_all_memory env = Inr r \<longrightarrow> finalize_io env = Inr location \<longrightarrow>
      clear_memories env (m, disk) =
        (Inr r,
         m\<lparr>messages := [],
           total_input_tokens := 0, total_output_tokens := 0,
           total_cache_read_tokens := 0, total_cache_write_tokens := 0,
           trace := new_trace (new_sid env) (model m) (system_prompt m)\<rparr>,
         disk @ [(location, (trace m)\<lparr>finalized := True\<rparr>)])) \<and>
   (clear_all_memory env = Inr r \<longrightarrow> finalize_io env = Inl e \<longrightarrow>
      fst (clear_memories env (m, disk)) = Inl e \<and>
      trace (fst (snd (clear_memories env (m, disk)))) = trace m \<and>
      snd (snd (clear_memories env (m, disk))) = disk)"
  by (simp add: clear_memories_def trace_finalize_def Let_def)

theorem clear_memories_steps_witness:
  "clear_memories
     \<lparr>clear_all_memory = Inr ''All memory cleared'',
      finalize_io = Inr ''sessions/session_s1.json'', new_sid = ''s2''\<rparr>
     (\<lparr>model = ''claude'', system_prompt = ''be brief'',
       messages = [(User, ''hi''), (Assistant, ''hello'')],
       trace = \<lparr>session_id = ''s1'', trace_model = ''claude'', trace_system_prompt = ''be brief'',
                events = [User_input ''hi''], finalized = False\<rparr>,
       total_input_tokens = 10, total_output_tokens = 5,
       total_cache_read_tokens = 0, total_cache_write_tokens = 0\<rparr>, []) =
   (Inr ''All memory cleared'',
    \<lparr>model = ''claude'', system_prompt = ''be brief'', messages = [],
       trace = \<lparr>session_id = ''s2'', trace_model = ''claude'', trace_system_prompt = ''be brief'',
                events = [], finalized = False\<rparr>,
       total_input_tokens = 0, total_output_tokens = 0,
       total_cache_read_tokens = 0, total_cache_write_tokens = 0\<rparr>,
    [(''sessions/session_s1.json'',
      \<lparr>session_id = ''s1'', trace_model = ''claude'', trace_system_prompt = ''be brief'',
       events = [User_input ''hi''], finalized = True\<rparr>)]) \<and>
   clear_memories
     \<lparr>clear_all_memory = Inl \<lparr>exn_type = ''PermissionError'', exn_message = ''denied'',
        is_exception = True\<rparr>,
      finalize_io = Inr ''sessions/session_s1.json'', new_sid = ''s2''\<rparr>
     (\<lparr>model = ''claude'', system_prompt = ''be brief'',
       messages = [(User, ''hi''), (Assistant, ''hello'')],
       trace = \<lparr>session_id = ''s1'', trace_model = ''claude'', trace_system_prompt = ''be brief'',
                events = [User_input ''hi''], finalized = False\<rparr>,
       total_input_tokens = 10, total_output_tokens = 5,
       total_cache_read_tokens = 0, total_cache_write_tokens = 0\<rparr>, []) =
   (Inl \<lparr>exn_type = ''PermissionError'', exn_message = ''denied'',
        is_exception = True\<rparr>,
    \<lparr>model = ''claude'', system_prompt = ''be brief'',
       messages = [(User, ''hi''), (Assistant, ''hello'')],
       trace = \<lparr>session_id = ''s1'', trace_model = ''claude'', trace_system_prompt = ''be brief'',
                events = [User_input ''hi''], finalized = False\<rparr>,
       total_input_tokens = 10, total_output_tokens = 5,
       total_cache_read_tokens = 0, total_cache_write_tokens = 0\<rparr>, [])"
proof -
  let ?m = "\<lparr>model = ''claude'', system_prompt = ''be brief'',
       messages = [(User, ''hi''), (Assistant, ''hello'')],
       trace = \<lparr>session_id = ''s1'', trace_model = ''claude'', trace_system_prompt = ''be brief'',
                events = [User_input ''hi''], finalized = False\<rparr>,
       total_input_tokens = 10, total_output_tokens = 5,
       total_cache_read_tokens = 0, total_cache_write_tokens = 0\<rparr>"
  let ?ok = "\<lparr>clear_all_memory = Inr ''All memory cleared'',
      finalize_io = Inr ''sessions/session_s1.json'', new_sid = ''s2''\<rparr>"
  let ?e = "\<lparr>exn_type = ''PermissionError'', exn_message = ''denied'',
        is_exception = True\<rparr>"
  let ?ko = "\<lparr>clear_all_memory = Inl ?e,
      finalize_io = Inr ''sessions/session_s1.json'', new_sid = ''s2''\<rparr>"
  from clear_memories_steps
         [where env = "?ok" and r = "''All memory cleared''"
            and location = "''sessions/session_s1.json''" and m = "?m" and disk = "[]"]
  have a: "clear_memories ?ok (?m, []) =
     (Inr ''All memory cleared'',
      \<lparr>model = ''claude'', system_prompt = ''be brief'', messages = [],
       trace = \<lparr>session_id = ''s2'', trace_model = ''claude'', trace_system_prompt = ''be brief'',
                events = [], finalized = False\<rparr>,
       total_input_tokens = 0, total_output_tokens = 0,
       total_cache_read_tokens = 0, total_cache_write_tokens = 0\<rparr>,
      [(''sessions/session_s1.json'',
        \<lparr>session_id = ''s1'', trace_model = ''claude'', trace_system_prompt = ''be brief'',
         events = [User_input ''hi''], finalized = True\<rparr>)])"
    by (simp add: new_trace_def)
  from clear_memories_steps [where env = "?ko" and e = "?e" and m = "?m" and disk = "[]"]
  have b: "clear_memories ?ko (?m, []) = (Inl ?e, ?m, [])"
    by simp
  from a b show ?thesis by blast
qed

text \<open>
  C1. Every \<open>token_usage\<close> event of a session log is to record, as its cumulative
  values, the sum of the deltas up to and including its own. A turn whose usage holds
  integers keeps this true (lemma \<open>turn_preserves_counter_consistency\<close>), but a reset
  that fails while finalizing does not: the counters are zero again while the old log stays current, so the next
  \<open>token_usage\<close> event of that log records cumulative values below those of the event
  before it. The run below is: a first turn with usage 10 and 5, a reset whose
  \<open>finalize\<close> raises, a second turn with usage 3 and 2.
\<close>

theorem counters_inconsistent_after_failed_reset:
  "send_message_streaming
     \<lparr>stream = [Content_block_delta (Some ''hello'')], tool_events = [],
      outcome = Inr \<lparr>response_content = [Some ''hello''],
                     response_usage = \<lparr>usage_input_tokens = 10, usage_output_tokens = 5,
                       cache_read_input_tokens = Some (Some 0),
                       cache_creation_input_tokens = Some (Some 0)\<rparr>\<rparr>\<rparr>
     ''hi'' (init ''s1'' ''claude'' ''be brief'') =
   (([Out_text ''hello'',
      Out_done \<lparr>input_tokens = 10, output_tokens = 5, cache_read_tokens = 0, cache_write_tokens = 0\<rparr>
               \<lparr>input_tokens = 10, output_tokens = 5, cache_read_tokens = 0, cache_write_tokens = 0\<rparr>],
     None),
    \<lparr>model = ''claude'', system_prompt = ''be brief'',
     messages = [(User, ''hi''), (Assistant, ''hello'')],
     trace = \<lparr>session_id = ''s1'', trace_model = ''claude'', trace_system_prompt = ''be brief'',
              events = [User_input ''hi'', Llm_request 1 [''memory''], Llm_response ''hello'',
                Token_usage
                  \<lparr>input_tokens = 10, output_tokens = 5, cache_read_tokens = 0, cache_write_tokens = 0\<rparr>
                  \<lparr>input_tokens = 10, output_tokens = 5, cache_read_tokens = 0, cache_write_tokens = 0\<rparr>],
              finalized = False\<rparr>,
     total_input_tokens = 10, total_output_tokens = 5,
     total_cache_read_tokens = 0, total_cache_write_tokens = 0\<rparr>) \<and>
   clear_memories
     \<lparr>clear_all_memory = Inr ''All memory cleared'',
      finalize_io = Inl \<lparr>exn_type = ''OSError'', exn_message = ''No space left on device'',
        is_exception = True\<rparr>,
      new_sid = ''s2''\<rparr>
     (\<lparr>model = ''claude'', system_prompt = ''be brief'',
       messages = [(User, ''hi''), (Assistant, ''hello'')],
       trace = \<lparr>session_id = ''s1'', trace_model = ''claude'', trace_system_prompt = ''be brief'',
              events = [User_input ''hi'', Llm_request 1 [''memory''], Llm_response ''hello'',
                Token_usage
                  \<lparr>input_tokens = 10, output_tokens = 5, cache_read_tokens = 0, cache_write_tokens = 0\<rparr>
                  \<lparr>input_tokens = 10, output_tokens = 5, cache_read_tokens = 0, cache_write_tokens = 0\<rparr>],
              finalized = False\<rparr>,
       total_input_tokens = 10, total_output_tokens = 5,
       total_cache_read_tokens = 0, total_cache_write_tokens = 0\<rparr>, []) =
   (Inl \<lparr>exn_type = ''OSError'', exn_message = ''No space left on device'',
        is_exception = True\<rparr>,
    \<lparr>model = ''claude'', system_prompt = ''be brief'', messages = [],
       trace = \<lparr>session_id = ''s1'', trace_model = ''claude'', trace_system_prompt = ''be brief'',
              events = [User_input ''hi'', Llm_request 1 [''memory''], Llm_response ''hello'',
                Token_usage
                  \<lparr>input_tokens = 10, output_tokens = 5, cache_read_tokens = 0, cache_write_tokens = 0\<rparr>
                  \<lparr>input_tokens = 10, output_tokens = 5, cache_read_tokens = 0, cache_write_tokens = 0\<rparr>],
              finalized = False\<rparr>,
       total_input_tokens = 0, total_output_tokens = 0,
       total_cache_read_tokens = 0, total_cache_write_tokens = 0\<rparr>, []) \<and>
   events (trace (snd (send_message_streaming
     \<lparr>stream = [Content_block_delta (Some ''ok'')], tool_events = [],
      outcome = Inr \<lparr>response_content = [Some ''ok''],
                     response_usage = \<lparr>usage_input_tokens = 3, usage_output_tokens = 2,
                       cache_read_input_tokens = Some (Some 0),
                       cache_creation_input_tokens = Some (Some 0)\<rparr>\<rparr>\<rparr>
     ''again''
     \<lparr>model = ''claude'', system_prompt = ''be brief'', messages = [],
       trace = \<lparr>session_id = ''s1'', trace_model = ''claude'', trace_system_prompt = ''be brief'',
              events = [User_input ''hi'', Llm_request 1 [''memory''], Llm_response ''hello'',
                Token_usage
                  \<lparr>input_tokens = 10, output_tokens = 5, cache_read_tokens = 0, cache_write_tokens = 0\<rparr>
                  \<lparr>input_tokens = 10, output_tokens = 5, cache_read_tokens = 0, cache_write_tokens = 0\<rparr>],
              finalized = False\<rparr>,
       total_input_tokens = 0, total_output_tokens = 0,
       total_cache_read_tokens = 0, total_cache_write_tokens = 0\<rparr>))) =
     [User_input ''hi'', Llm_request 1 [''memory''], Llm_response ''hello'',
      Token_usage
        \<lparr>input_tokens = 10, output_tokens = 5, cache_read_tokens = 0, cache_write_tokens = 0\<rparr>
        \<lparr>input_tokens = 10, output_tokens = 5, cache_read_tokens = 0, cache_write_tokens = 0\<rparr>,
      User_input ''again'', Llm_request 1 [''memory''], Llm_response ''ok'',
      Token_usage
        \<lparr>input_tokens = 3, output_tokens = 2, cache_read_tokens = 0, cache_write_tokens = 0\<rparr>
        \<lparr>input_tokens = 3, output_tokens = 2, cache_read_tokens = 0, cache_write_tokens = 0\<rparr>] \<and>
   \<not> counter_consistent
     [User_input ''hi'', Llm_request 1 [''memory''], Llm_response ''hello'',
      Token_usage
        \<lparr>input_tokens = 10, output_tokens = 5, cache_read_tokens = 0, cache_write_tokens = 0\<rparr>
        \<lparr>input_tokens = 10, output_tokens = 5, cache_read_tokens = 0, cache_write_tokens = 0\<rparr>,
      User_input ''again'', Llm_request 1 [''memory''], Llm_response ''ok'',
      Token_usage
        \<lparr>input_tokens = 3, output_tokens = 2, cache_read_tokens = 0, cache_write_tokens = 0\<rparr>
        \<lparr>input_tokens = 3, output_tokens = 2, cache_read_tokens = 0, cache_write_tokens = 0\<rparr>]"
  by (simp add: send_message_streaming_def handle_exception_def clear_memories_def
        trace_finalize_def init_def
        new_trace_def Let_def log_user_input_def log_llm_request_def log_llm_response_def
        log_token_usage_def append_event_def totals_def getattr_default_def
        counter_consistent_def add_tokens_def zero_tokens_def)

end
